theory Spec2Isabelle
  imports Complex_Main "HOL-Library.Word"
begin

section \<open>Wire messages and common types\<close>

text \<open>
  The six message types of package \<open>net\<close>. A session's \<open>nextExpectedMessage\<close> is a
  prototype instance of which only the dynamic type is ever read (by \<open>Type()\<close> and by
  the type switch of \<open>ProtocolComplete\<close>), so it is kept as a \<open>kind\<close>.
\<close>

datatype kind =
    SendKeysType
  | NotifyContractDeployedType
  | NotifyXMRLockType
  | NotifyReadyType
  | NotifyClaimedType
  | NotifyRefundType

datatype message =
    SendKeysMessage (PublicSpendKey: string) (PrivateViewKey: string)
                    (SpendKeyHash: string) (EthAddress: string)
  | NotifyContractDeployed string
  | NotifyXMRLock string
  | NotifyReady
  | NotifyClaimed string
  | NotifyRefund string

fun Type :: "message \<Rightarrow> kind" where
  "Type (SendKeysMessage _ _ _ _) = SendKeysType"
| "Type (NotifyContractDeployed _) = NotifyContractDeployedType"
| "Type (NotifyXMRLock _) = NotifyXMRLockType"
| "Type NotifyReady = NotifyReadyType"
| "Type (NotifyClaimed _) = NotifyClaimedType"
| "Type (NotifyRefund _) = NotifyRefundType"

text \<open>
  Errors. \<open>New m\<close> is \<open>errors.New(m)\<close> or \<open>fmt.Errorf(m)\<close> without a cause,
  \<open>Wrap m e\<close> is \<open>fmt.Errorf(m + ": %w", e)\<close>; the remaining constructors are the
  package-level error variables and the two messages that contain formatted values.
\<close>

datatype error =
    New string
  | Wrap string error
  | errMissingKeys_a
  | errMissingSpendKeyHash
  | errMissingAddress_a
  | errMissingKeys_b
  | errMissingAddress_b
  | errViewKeyMismatch string string
  | errAmountTooLow rat rat

text \<open>
  A key of package \<open>monero\<close> is represented by its \<open>Hex()\<close> encoding, so that
  \<open>vk.Hex() != dvk.Hex()\<close> is inequality of keys.
\<close>

type_synonym key = string
type_synonym PrivateKeyPair = "key \<times> key"  \<comment> \<open>(spend key, view key)\<close>
type_synonym PublicKeyPair = "key \<times> key"   \<comment> \<open>(spend key, view key)\<close>
type_synonym byte = "8 word"
type_synonym uint64 = "64 word"

text \<open>
  The functions of package \<open>monero\<close> that the sessions call. The package is not part of
  the sources at hand, so its functions are parameters of the model.
\<close>

record monero =
  NewPrivateViewKeyFromHash :: "string \<Rightarrow> error + key"
  NewPrivateViewKeyFromHex :: "string \<Rightarrow> error + key"
  NewPublicKeyFromHex :: "string \<Rightarrow> error + key"
  NewPublicKeyPairFromHex :: "string \<Rightarrow> string \<Rightarrow> error + PublicKeyPair"
  NewPrivateSpendKey :: "byte list \<Rightarrow> error + key"
  View :: "key \<Rightarrow> error + key"
  Public :: "key \<Rightarrow> key"
  SumPrivateViewKeys :: "key \<Rightarrow> key \<Rightarrow> key"
  SumPrivateSpendKeys :: "key \<Rightarrow> key \<Rightarrow> key"
  SumPublicKeys :: "key \<Rightarrow> key \<Rightarrow> key"
  Address :: "PublicKeyPair \<Rightarrow> string"
  Address_priv :: "PrivateKeyPair \<Rightarrow> string"

subsection \<open>Time\<close>

text \<open>
  A \<open>time.Time\<close> is an instant in nanoseconds since the Unix epoch; a
  \<open>time.Duration\<close> is an \<open>int64\<close> count of nanoseconds, and \<open>Time.Sub\<close> saturates at
  its bounds. A receive from \<open>time.After(d)\<close> blocks for \<open>d\<close>, and not at all when
  \<open>d \<le> 0\<close>.
\<close>

type_synonym Time = int
type_synonym Duration = int

definition minDuration :: Duration where
  "minDuration = - (2 ^ 63)"

definition maxDuration :: Duration where
  "maxDuration = 2 ^ 63 - 1"

definition Sub :: "Time \<Rightarrow> Time \<Rightarrow> Duration" where
  "Sub t u = (if t - u < minDuration then minDuration
              else if maxDuration < t - u then maxDuration
              else t - u)"

definition Until :: "Time \<Rightarrow> Time \<Rightarrow> Duration" where
  \<comment> \<open>\<open>time.Until(t)\<close> read when the clock shows \<open>now\<close>\<close>
  "Until now t = Sub t now"

definition After :: "Duration \<Rightarrow> Duration" where
  \<comment> \<open>how long \<open><-time.After(d)\<close> blocks\<close>
  "After d = (if d \<le> 0 then 0 else d)"

definition Second :: Duration where
  "Second = 1000000000"

definition Unix :: "int \<Rightarrow> Time" where
  \<comment> \<open>\<open>time.Unix(sec, 0)\<close>\<close>
  "Unix sec = sec * Second"

definition zeroTime :: Time where
  \<comment> \<open>the zero \<open>time.Time\<close>, January 1 of year 1\<close>
  "zeroTime = Unix (- 62135596800)"

subsection \<open>Effects\<close>

text \<open>
  What a session does to the world outside its own fields, in the order in which it does
  it: wallet RPC calls, contract calls, channel closes, goroutines started, files written.
  Calls that can fail carry their result.
\<close>

datatype watchdog = PreT0Watchdog | PostT1Watchdog | T0Watchdog

datatype event =
    GenerateViewOnlyWalletFromKeys key string string "error option"
  | GenerateFromKeys PrivateKeyPair string "error option"
  | Refresh "error option"
  | GetBalance "error + rat"
  | CloseWallet "error option"
  | openWallet "error option"
  | ready_call "error option"
  | refund_call Time "error + string"
  | claimFunds_call Time "error + string"
  | deployAndLockETH_call "error + string"
  | setContract_call "error option"
  | lockFunds_call "error + string"
  | Timeout0 "error + int"
  | Timeout1 "error + int"
  | handleNotifyClaimed_call string "error + string"
  | TransactionReceipt string "error + byte list list"
  | WriteKeysToFile string PrivateKeyPair "error option"
  | close_chan string
  | go watchdog
  | cancel
  | clear_swapState

text \<open>
  A call of a session method either returns (with the session's fields, the effects so
  far, and the method's results) or panics (with the fields and effects up to there).
\<close>

datatype ('s, 'r) exec =
    Return 's "event list" 'r
  | Panic 's "event list"

type_synonym reply = "message option \<times> bool \<times> error option"

subsection \<open>The world outside a session\<close>

text \<open>
  The results of the calls that leave the session: the wallet RPC client, the chain
  client, the contract binding, and the methods of the parent \<open>alice\<close> and \<open>bob\<close>
  objects, none of which is part of the sources at hand. Every method below makes each of
  these calls at most once, so one result per call describes any behaviour of the outside
  during that method. \<open>now\<close> is the reading of the clock, \<open>timestamp\<close> its rendering by
  \<open>time.Now().Format\<close>.
\<close>

record world =
  now :: Time
  timestamp :: string
  basepath :: string
  HexToAddress :: "string \<Rightarrow> string"
  GenerateViewOnlyWalletFromKeys_res :: "error option"
  GenerateFromKeys_res :: "error option"
  Refresh_res :: "error option"
  GetBalance_res :: "error + rat"
  CloseWallet_res :: "error option"
  openWallet_res :: "error option"
  ready_res :: "error option"
  refund_res :: "error + string"
  claim_res :: "error + string"
  deployAndLockETH_res :: "error + string"
  setContract_res :: "error option"
  lockFunds_res :: "error + string"
  Timeout0_res :: "error + int"
  Timeout1_res :: "error + int"
  handleNotifyClaimed_res :: "error + string"
  TransactionReceipt_res :: "error + byte list list"
  abi_JSON_res :: "error option"
  Unpack_Refunded :: "byte list \<Rightarrow> error + byte list"
  WriteKeysToFile_res :: "error option"

subsection \<open>Conversions of the language and its library\<close>

text \<open>
  \<open>float64(x)\<close> for an unsigned 64-bit \<open>x\<close>: the nearest number with a 53-bit
  significand, ties to the even significand. The wallet reports the balance as a
  \<open>float64\<close> decoded from JSON, which is always a finite number; both are kept as
  rationals, on which \<open><\<close> is the comparison of \<open>float64\<close>.
\<close>

fun bit_length :: "nat \<Rightarrow> nat" where
  "bit_length n = (if n = 0 then 0 else Suc (bit_length (n div 2)))"

declare bit_length.simps [simp del]

definition float64_of_uint64 :: "uint64 \<Rightarrow> rat" where
  "float64_of_uint64 x =
     (let n = unat x; e = bit_length n in
      if e \<le> 53 then of_nat n
      else let sh = e - 53; q = n div 2 ^ sh; r = n mod 2 ^ sh; half = 2 ^ (sh - 1);
               q' = (if half < r \<or> (r = half \<and> odd q) then q + 1 else q)
           in of_nat (q' * 2 ^ sh))"

definition Int64 :: "int \<Rightarrow> int" where
  \<comment> \<open>\<open>(*big.Int).Int64()\<close>: the low 64 bits, read as two's complement\<close>
  "Int64 x = sint (word_of_int x :: 64 word)"

definition fromHexChar :: "char \<Rightarrow> nat option" where
  "fromHexChar c =
     (let n = of_char c :: nat in
      if 48 \<le> n \<and> n \<le> 57 then Some (n - 48)
      else if 97 \<le> n \<and> n \<le> 102 then Some (n - 97 + 10)
      else if 65 \<le> n \<and> n \<le> 70 then Some (n - 65 + 10)
      else None)"

fun decimal :: "nat \<Rightarrow> string" where
  \<comment> \<open>the verb \<open>%d\<close> of \<open>fmt.Sprintf\<close> on an unsigned integer\<close>
  "decimal n =
     (if n < 10 then [char_of (48 + n)]
      else decimal (n div 10) @ [char_of (48 + n mod 10)])"

declare decimal.simps [simp del]

fun DecodeString :: "string \<Rightarrow> error + byte list" where
  "DecodeString [] = Inr []"
| "DecodeString [c] =
     (case fromHexChar c of
        None \<Rightarrow> Inl (New ''encoding/hex: invalid byte'')
      | Some _ \<Rightarrow> Inl (New ''encoding/hex: odd length hex string''))"
| "DecodeString (a # b # cs) =
     (case (fromHexChar a, fromHexChar b) of
        (Some x, Some y) \<Rightarrow>
          (case DecodeString cs of
             Inl e \<Rightarrow> Inl e
           | Inr bs \<Rightarrow> Inr (of_nat (16 * x + y) # bs))
      | _ \<Rightarrow> Inl (New ''encoding/hex: invalid byte''))"

section \<open>Alice's session\<close>

record swapState_a =
  id_a :: uint64
  providesAmount_a :: uint64
  desiredAmount_a :: uint64
  privkeys_a :: "PrivateKeyPair option"  \<comment> \<open>\<open>nil\<close> until the keys are generated\<close>
  pubkeys_a :: "PublicKeyPair option"
  bobPublicSpendKey :: "key option"
  bobPrivateViewKey :: "key option"
  bobClaimHash :: "byte list"
  bobAddress :: string
  contract_a :: "string option"          \<comment> \<open>\<open>nil\<close> until the contract is deployed\<close>
  t0_a :: Time
  t1_a :: Time
  nextExpectedMessage_a :: kind
  xmrLockedCh :: bool                    \<comment> \<open>\<open>True\<close> once closed\<close>
  claimedCh :: bool                      \<comment> \<open>\<open>True\<close> once closed\<close>
  success_a :: bool

definition newSwapState_a :: "uint64 \<Rightarrow> uint64 \<Rightarrow> uint64 \<Rightarrow> swapState_a" where
  "newSwapState_a nextID provides desired =
     \<lparr> id_a = nextID, providesAmount_a = provides, desiredAmount_a = desired,
       privkeys_a = None, pubkeys_a = None,
       bobPublicSpendKey = None, bobPrivateViewKey = None,
       bobClaimHash = replicate 32 0, bobAddress = [],
       contract_a = None, t0_a = zeroTime, t1_a = zeroTime,
       nextExpectedMessage_a = SendKeysType,
       xmrLockedCh = False, claimedCh = False, success_a = False \<rparr>"

definition checkMessageType_a :: "swapState_a \<Rightarrow> message \<Rightarrow> error option" where
  "checkMessageType_a s msg =
     (if Type msg \<noteq> nextExpectedMessage_a s then Some (New ''received unexpected message'')
      else None)"

definition tryRefund :: "world \<Rightarrow> swapState_a \<Rightarrow> event list \<times> error option" where
  "tryRefund W s =
     (let untilT0 = Until (now W) (t0_a s);
          untilT1 = Until (now W) (t1_a s);
          waited = (if 0 < untilT0 \<and> untilT1 < 0 then After untilT1 else 0)
      in ([refund_call (now W + waited) (refund_res W)],
          case refund_res W of Inl e \<Rightarrow> Some e | Inr _ \<Rightarrow> None))"

definition ProtocolComplete_a :: "world \<Rightarrow> swapState_a \<Rightarrow> event list" where
  "ProtocolComplete_a W s =
     (if success_a s then []
      else case nextExpectedMessage_a s of
             SendKeysType \<Rightarrow> []
           | NotifyXMRLockType \<Rightarrow> fst (tryRefund W s)
           | NotifyClaimedType \<Rightarrow> fst (tryRefund W s)
           | _ \<Rightarrow> [])
     @ [cancel, clear_swapState]"

definition verifyBobKeys :: "monero \<Rightarrow> world \<Rightarrow> swapState_a \<Rightarrow> message \<Rightarrow>
    swapState_a \<times> event list \<times> error option" where
  "verifyBobKeys M W s msg =
     (case DecodeString (SpendKeyHash msg) of
        Inl e \<Rightarrow> (s, [], Some e)
      | Inr hb \<Rightarrow> (
     if length hb \<noteq> 32 then (s, [], Some (New ''invalid spend key hash''))
     else let s1 = s\<lparr>bobClaimHash := hb\<rparr> in
     case NewPrivateViewKeyFromHash M (SpendKeyHash msg) of
        Inl e \<Rightarrow> (s1, [], Some (Wrap ''failed to derive view key from spend key hash'' e))
      | Inr dvk \<Rightarrow> (
     case NewPrivateViewKeyFromHex M (PrivateViewKey msg) of
        Inl e \<Rightarrow> (s1, [], Some (Wrap ''failed to generate Bob's private view keys'' e))
      | Inr vk \<Rightarrow> (
     if vk \<noteq> dvk then (s1, [], Some (errViewKeyMismatch dvk vk))
     else
     case NewPublicKeyPairFromHex M (PublicSpendKey msg) (Public M vk) of
        Inl e \<Rightarrow> (s1, [], Some (Wrap ''failed to generate Alice's public keys'' e))
      | Inr kp \<Rightarrow> (
     let gen = GenerateViewOnlyWalletFromKeys vk (Address M kp)
                 (''bob-viewonly-wallet-'' @ timestamp W)
                 (GenerateViewOnlyWalletFromKeys_res W) in
     case GenerateViewOnlyWalletFromKeys_res W of
        Some e \<Rightarrow>
          (s1, [gen], Some (Wrap ''failed to generate view-only wallet to verify Bob's keys'' e))
      | None \<Rightarrow> (
     case CloseWallet_res W of
        Some e \<Rightarrow> (s1, [gen, CloseWallet (Some e)], Some (Wrap ''failed to close wallet'' e))
      | None \<Rightarrow> (s1, [gen, CloseWallet None], None)))))))"

text \<open>
  Modelled from the spec: \<open>setBobKeys\<close>, a method of Alice's session that is not part of
  the sources at hand. The key material of a session holds the peer's public spend key and
  the peer's private view key; the method stores the two.
\<close>

definition setBobKeys :: "key \<Rightarrow> key \<Rightarrow> swapState_a \<Rightarrow> swapState_a" where
  "setBobKeys sk vk s = s\<lparr>bobPublicSpendKey := Some sk, bobPrivateViewKey := Some vk\<rparr>"

text \<open>
  Modelled from the spec: \<open>deployAndLockETH\<close>, a method of Alice's session that is not
  part of the sources at hand. It deploys the escrow; the session's contract handle is
  unset until deploy. Its result is the world's \<open>deployAndLockETH_res\<close>.
\<close>

definition deployAndLockETH :: "world \<Rightarrow> swapState_a \<Rightarrow> swapState_a \<times> (error + string)" where
  "deployAndLockETH W s =
     (case deployAndLockETH_res W of
        Inl e \<Rightarrow> (s, Inl e)
      | Inr address \<Rightarrow> (s\<lparr>contract_a := Some address\<rparr>, Inr address))"

definition handleSendKeysMessage_a :: "monero \<Rightarrow> world \<Rightarrow> swapState_a \<Rightarrow> message \<Rightarrow>
    (swapState_a, message option \<times> error option) exec" where
  "handleSendKeysMessage_a M W s msg =
     (if PublicSpendKey msg = [] \<or> PrivateViewKey msg = [] then
        Return s [] (None, Some errMissingKeys_a)
      else if SpendKeyHash msg = [] then Return s [] (None, Some errMissingSpendKeyHash)
      else if EthAddress msg = [] then Return s [] (None, Some errMissingAddress_a)
      else
      case verifyBobKeys M W s msg of
        (s1, tr, Some e) \<Rightarrow> Return s1 tr (None, Some e)
      | (s1, tr, None) \<Rightarrow> (
      case NewPrivateViewKeyFromHex M (PrivateViewKey msg) of
        Inl e \<Rightarrow>
          Return s1 tr (None, Some (Wrap ''failed to generate Bob's private view keys'' e))
      | Inr vk \<Rightarrow> (
      let s2 = s1\<lparr>bobAddress := HexToAddress W (EthAddress msg),
                  nextExpectedMessage_a := NotifyXMRLockType\<rparr> in
      case NewPublicKeyFromHex M (PublicSpendKey msg) of
        Inl e \<Rightarrow>
          Return s2 tr (None, Some (Wrap ''failed to generate Bob's public spend key'' e))
      | Inr sk \<Rightarrow> (
      let s3 = setBobKeys sk vk s2;
          tr1 = tr @ [deployAndLockETH_call (deployAndLockETH_res W)] in
      case deployAndLockETH W s3 of
        (s4, Inl e) \<Rightarrow> Return s4 tr1 (None, Some (Wrap ''failed to deploy contract'' e))
      | (s4, Inr address) \<Rightarrow> (
      case contract_a s4 of
        None \<Rightarrow> Panic s4 tr1
      | Some _ \<Rightarrow> (
      let tr2 = tr1 @ [Timeout0 (Timeout0_res W)] in
      case Timeout0_res W of
        Inl e \<Rightarrow> Return s4 tr2 (None, Some (Wrap ''failed to get timeout0 from contract'' e))
      | Inr st0 \<Rightarrow> (
      let s5 = s4\<lparr>t0_a := Unix (Int64 st0)\<rparr>;
          tr3 = tr2 @ [Timeout1 (Timeout1_res W)] in
      case Timeout1_res W of
        Inl e \<Rightarrow> Return s5 tr3 (None, Some (Wrap ''failed to get timeout1 from contract'' e))
      | Inr st1 \<Rightarrow> (
      let s6 = s5\<lparr>t1_a := Unix (Int64 st1)\<rparr> in
      Return s6 (tr3 @ [go PreT0Watchdog]) (Some (NotifyContractDeployed address), None)))))))))"

text \<open>
  The \<open>NotifyXMRLock\<close> case of \<open>HandleProtocolMessage\<close>. Reading a key through a \<open>nil\<close>
  key pair, or summing a \<open>nil\<close> key, is a nil dereference.
\<close>

definition handleNotifyXMRLock :: "monero \<Rightarrow> world \<Rightarrow> swapState_a \<Rightarrow> string \<Rightarrow>
    (swapState_a, reply) exec" where
  "handleNotifyXMRLock M W s address =
     (if address = [] then Return s [] (None, True, Some (New ''got empty address for locked XMR''))
      else
      case (privkeys_a s, bobPrivateViewKey s, pubkeys_a s, bobPublicSpendKey s) of
        (Some priv, Some bvk, Some pub, Some bsk) \<Rightarrow>
      (let vk = SumPrivateViewKeys M bvk (snd priv);
           sk = SumPublicKeys M bsk (fst pub);
           kp = (sk, Public M vk) in
       if address \<noteq> Address M kp then
         Return s [] (None, True,
           Some (New ''address received in message does not match expected address''))
       else
       let tr1 = [GenerateViewOnlyWalletFromKeys vk (Address M kp)
                    (''alice-viewonly-wallet-'' @ timestamp W)
                    (GenerateViewOnlyWalletFromKeys_res W)] in
       case GenerateViewOnlyWalletFromKeys_res W of
         Some e \<Rightarrow>
           Return s tr1 (None, True,
             Some (Wrap ''failed to generate view-only wallet to verify locked XMR'' e))
       | None \<Rightarrow> (
       let tr2 = tr1 @ [Refresh (Refresh_res W)] in
       case Refresh_res W of
         Some e \<Rightarrow> Return s tr2 (None, True, Some e)
       | None \<Rightarrow> (
       let tr3 = tr2 @ [GetBalance (GetBalance_res W)] in
       case GetBalance_res W of
         Inl e \<Rightarrow> Return s tr3 (None, True, Some e)
       | Inr balance \<Rightarrow> (
       if balance < float64_of_uint64 (desiredAmount_a s) then
         Return s tr3 (None, True,
           Some (errAmountTooLow balance (float64_of_uint64 (desiredAmount_a s))))
       else
       let tr4 = tr3 @ [CloseWallet (CloseWallet_res W)] in
       case CloseWallet_res W of
         Some e \<Rightarrow> Return s tr4 (None, True, Some (Wrap ''failed to close wallet'' e))
       | None \<Rightarrow> (
       let s1 = s\<lparr>nextExpectedMessage_a := NotifyClaimedType\<rparr> in
       if xmrLockedCh s1 then Panic s1 tr4
       else
       let s2 = s1\<lparr>xmrLockedCh := True\<rparr>;
           tr5 = tr4 @ [close_chan ''xmrLockedCh'', ready_call (ready_res W)] in
       case ready_res W of
         Some e \<Rightarrow> Return s2 tr5 (None, True, Some (Wrap ''failed to call Ready'' e))
       | None \<Rightarrow> Return s2 (tr5 @ [go PostT1Watchdog]) (Some NotifyReady, False, None))))))
      | _ \<Rightarrow> Panic s [])"

text \<open>
  Modelled from the spec: \<open>handleNotifyClaimed\<close>, a method of Alice's session that is not
  part of the sources at hand. On \<open>NotifyClaimed(txHash)\<close> Alice reads Bob's secret from
  the event, recovers the joint spend key, creates the spendable wallet and latches
  success. Its result is the world's \<open>handleNotifyClaimed_res\<close>.
\<close>

definition handleNotifyClaimed :: "world \<Rightarrow> swapState_a \<Rightarrow> string \<Rightarrow>
    swapState_a \<times> (error + string)" where
  "handleNotifyClaimed W s txHash =
     (case handleNotifyClaimed_res W of
        Inl e \<Rightarrow> (s, Inl e)
      | Inr address \<Rightarrow> (s\<lparr>success_a := True\<rparr>, Inr address))"

definition HandleProtocolMessage_a :: "monero \<Rightarrow> world \<Rightarrow> swapState_a \<Rightarrow> message \<Rightarrow>
    (swapState_a, reply) exec" where
  "HandleProtocolMessage_a M W s msg =
     (case checkMessageType_a s msg of
        Some e \<Rightarrow> Return s [] (None, True, Some e)
      | None \<Rightarrow> (
      case msg of
        SendKeysMessage _ _ _ _ \<Rightarrow>
          (case handleSendKeysMessage_a M W s msg of
             Panic s' tr \<Rightarrow> Panic s' tr
           | Return s' tr (resp, Some e) \<Rightarrow> Return s' tr (None, True, Some e)
           | Return s' tr (resp, None) \<Rightarrow> Return s' tr (resp, False, None))
      | NotifyXMRLock address \<Rightarrow> handleNotifyXMRLock M W s address
      | NotifyClaimed txHash \<Rightarrow>
          (let tr = [handleNotifyClaimed_call txHash (handleNotifyClaimed_res W)] in
           case handleNotifyClaimed W s txHash of
             (s', Inl e) \<Rightarrow> Return s' tr (None, True, Some e)
           | (s', Inr address) \<Rightarrow>
               if claimedCh s' then Panic s' tr
               else Return (s'\<lparr>claimedCh := True\<rparr>) (tr @ [close_chan ''claimedCh''])
                      (None, True, None))
      | _ \<Rightarrow> Return s [] (None, False, Some (New ''unexpected message type''))))"

section \<open>Bob's session\<close>

record swapState_b =
  id_b :: uint64
  providesAmount_b :: uint64
  desiredAmount_b :: uint64
  privkeys_b :: "PrivateKeyPair option"  \<comment> \<open>\<open>nil\<close> until the keys are generated\<close>
  pubkeys_b :: "PublicKeyPair option"
  contract_b :: "string option"          \<comment> \<open>\<open>nil\<close> until the contract is bound\<close>
  contractAddr :: string
  t0_b :: Time
  t1_b :: Time
  alicePublicKeys :: "PublicKeyPair option"
  alicePrivateViewKey :: "key option"
  nextExpectedMessage_b :: kind
  readyCh :: bool                        \<comment> \<open>\<open>True\<close> once closed\<close>
  success_b :: bool

definition checkMessageType_b :: "swapState_b \<Rightarrow> message \<Rightarrow> error option" where
  "checkMessageType_b s msg =
     (case msg of
        NotifyRefund _ \<Rightarrow> None
      | _ \<Rightarrow> (if Type msg \<noteq> nextExpectedMessage_b s
              then Some (New ''received unexpected message'')
              else None))"

definition newSwapState_b :: "uint64 \<Rightarrow> uint64 \<Rightarrow> uint64 \<Rightarrow> swapState_b" where
  "newSwapState_b nextID provides desired =
     \<lparr> id_b = nextID, providesAmount_b = provides, desiredAmount_b = desired,
       privkeys_b = None, pubkeys_b = None,
       contract_b = None, contractAddr = [], t0_b = zeroTime, t1_b = zeroTime,
       alicePublicKeys = None, alicePrivateViewKey = None,
       nextExpectedMessage_b = SendKeysType,
       readyCh = False, success_b = False \<rparr>"

text \<open>
  Modelled from the spec: \<open>claimFunds\<close>, a method of Bob's session that is not part of
  the sources at hand. It submits \<open>claim(s_bob)\<close> and yields the transaction hash; the
  success flag of the E-winner is set once the claim receipt has been obtained. The result
  of the submission is the world's \<open>claim_res\<close>.
\<close>

definition claimFunds :: "world \<Rightarrow> swapState_b \<Rightarrow> swapState_b \<times> (error + string)" where
  "claimFunds W s =
     (case claim_res W of
        Inl e \<Rightarrow> (s, Inl e)
      | Inr txHash \<Rightarrow> (s\<lparr>success_b := True\<rparr>, Inr txHash))"

definition tryClaim :: "world \<Rightarrow> swapState_b \<Rightarrow> swapState_b \<times> event list \<times> error option" where
  "tryClaim W s =
     (let untilT0 = Until (now W) (t0_b s);
          untilT1 = Until (now W) (t1_b s);
          waited = (if untilT0 < 0 then After untilT0 else 0)
      in case claimFunds W s of
           (s', r) \<Rightarrow> (s', [claimFunds_call (now W + waited) (claim_res W)],
                       case r of Inl e \<Rightarrow> Some e | Inr _ \<Rightarrow> None))"

definition ProtocolComplete_b :: "world \<Rightarrow> swapState_b \<Rightarrow> swapState_b \<times> event list" where
  "ProtocolComplete_b W s =
     (let (s', tr) =
        (if success_b s then (s, [])
         else case nextExpectedMessage_b s of
                SendKeysType \<Rightarrow> (s, [])
              | NotifyContractDeployedType \<Rightarrow> (s, [])
              | NotifyReadyType \<Rightarrow> (case tryClaim W s of (s', tr, _) \<Rightarrow> (s', tr))
              | _ \<Rightarrow> (s, []))
      in (s', tr @ [cancel, clear_swapState]))"

text \<open>
  Modelled from the spec: \<open>setAlicePublicKeys\<close>, a method of Bob's session that is not
  part of the sources at hand: it stores the peer's public keys in the session.
\<close>

definition setAlicePublicKeys :: "PublicKeyPair \<Rightarrow> swapState_b \<Rightarrow> swapState_b" where
  "setAlicePublicKeys kp s = s\<lparr>alicePublicKeys := Some kp\<rparr>"

definition handleSendKeysMessage_b :: "monero \<Rightarrow> world \<Rightarrow> swapState_b \<Rightarrow> message \<Rightarrow>
    swapState_b \<times> event list \<times> error option" where
  "handleSendKeysMessage_b M W s msg =
     (if PublicSpendKey msg = [] \<or> PrivateViewKey msg = [] then (s, [], Some errMissingKeys_b)
      else if SpendKeyHash msg = [] then (s, [], Some (New ''did not receive SpendKeyHash''))
      else
      case NewPrivateViewKeyFromHash M (SpendKeyHash msg) of
        Inl e \<Rightarrow> (s, [], Some (Wrap ''failed to derive view key from spend key hash'' e))
      | Inr dvk \<Rightarrow> (
      let s1 = s\<lparr>nextExpectedMessage_b := NotifyContractDeployedType\<rparr> in
      case NewPrivateViewKeyFromHex M (PrivateViewKey msg) of
        Inl e \<Rightarrow> (s1, [], Some (Wrap ''failed to generate Alice's private view key'' e))
      | Inr vk \<Rightarrow> (
      if vk \<noteq> dvk then (s1, [], Some (errViewKeyMismatch dvk vk))
      else
      let s2 = s1\<lparr>alicePrivateViewKey := Some vk\<rparr> in
      case NewPublicKeyPairFromHex M (PublicSpendKey msg) (Public M vk) of
        Inl e \<Rightarrow> (s2, [], Some (Wrap ''failed to generate Alice's public keys'' e))
      | Inr kp \<Rightarrow> (
      let tr1 = [GenerateViewOnlyWalletFromKeys vk (Address M kp)
                   (''alice-viewonly-wallet-'' @ timestamp W)
                   (GenerateViewOnlyWalletFromKeys_res W)] in
      case GenerateViewOnlyWalletFromKeys_res W of
        Some e \<Rightarrow>
          (s2, tr1,
           Some (Wrap ''failed to generate view-only wallet to verify Alice's keys'' e))
      | None \<Rightarrow> (
      let tr2 = tr1 @ [CloseWallet (CloseWallet_res W)] in
      case CloseWallet_res W of
        Some e \<Rightarrow> (s2, tr2, Some (Wrap ''failed to close wallet'' e))
      | None \<Rightarrow> (
      let tr3 = tr2 @ [openWallet (openWallet_res W)] in
      case openWallet_res W of
        Some e \<Rightarrow> (s2, tr3, Some (Wrap ''failed to open wallet'' e))
      | None \<Rightarrow> (setAlicePublicKeys kp s2, tr3, None)))))))"

definition createMoneroWallet :: "monero \<Rightarrow> world \<Rightarrow> swapState_b \<Rightarrow> PrivateKeyPair \<Rightarrow>
    swapState_b \<times> event list \<times> (error + string)" where
  "createMoneroWallet M W s kpAB =
     (let tr1 = [GenerateFromKeys kpAB (''bob-swap-wallet-'' @ timestamp W)
                   (GenerateFromKeys_res W)] in
      case GenerateFromKeys_res W of
        Some e \<Rightarrow> (s, tr1, Inl e)
      | None \<Rightarrow> (
      let tr2 = tr1 @ [Refresh (Refresh_res W)] in
      case Refresh_res W of
        Some e \<Rightarrow> (s, tr2, Inl e)
      | None \<Rightarrow> (
      let tr3 = tr2 @ [GetBalance (GetBalance_res W)] in
      case GetBalance_res W of
        Inl e \<Rightarrow> (s, tr3, Inl e)
      | Inr balance \<Rightarrow> (s\<lparr>success_b := True\<rparr>, tr3, Inr (Address_priv M kpAB)))))"

text \<open>
  \<open>handleRefund\<close>. \<open>Unpack_Refunded\<close> of the world is \<open>abi.Unpack("Refunded", data)\<close>
  followed by the read of \<open>res[0]\<close> as a \<open>[32]byte\<close>; the ABI is a constant of the
  contract binding, which is not part of the sources at hand. Reading Bob's own keys
  through a \<open>nil\<close> \<open>privkeys\<close> is a nil dereference.
\<close>

definition handleRefund :: "monero \<Rightarrow> world \<Rightarrow> swapState_b \<Rightarrow> string \<Rightarrow>
    (swapState_b, error + string) exec" where
  "handleRefund M W s txHash =
     (let tr1 = [TransactionReceipt txHash (TransactionReceipt_res W)] in
      case TransactionReceipt_res W of
        Inl e \<Rightarrow> Return s tr1 (Inl e)
      | Inr logs \<Rightarrow> (
      case logs of
        [] \<Rightarrow> Return s tr1 (Inl (New ''claim transaction has no logs''))
      | data # _ \<Rightarrow> (
      case abi_JSON_res W of
        Some e \<Rightarrow> Return s tr1 (Inl e)
      | None \<Rightarrow> (
      case Unpack_Refunded W data of
        Inl e \<Rightarrow> Return s tr1 (Inl e)
      | Inr sa \<Rightarrow> (
      case NewPrivateSpendKey M sa of
        Inl e \<Rightarrow> Return s tr1 (Inl e)
      | Inr skA \<Rightarrow> (
      case View M skA of
        Inl e \<Rightarrow> Return s tr1 (Inl e)
      | Inr vkA \<Rightarrow> (
      case privkeys_b s of
        None \<Rightarrow> Panic s tr1
      | Some priv \<Rightarrow> (
      let skAB = SumPrivateSpendKeys M skA (fst priv);
          vkAB = SumPrivateViewKeys M vkA (snd priv);
          kpAB = (skAB, vkAB);
          fp = basepath W @ ''/'' @ decimal (unat (id_b s)) @ ''/swap-secret'';
          tr2 = tr1 @ [WriteKeysToFile fp kpAB (WriteKeysToFile_res W)] in
      case WriteKeysToFile_res W of
        Some e \<Rightarrow> Return s tr2 (Inl e)
      | None \<Rightarrow> (
      case createMoneroWallet M W s kpAB of
        (s', tr3, r) \<Rightarrow> Return s' (tr2 @ tr3) r)))))))))"

text \<open>
  Modelled from the spec: \<open>setContract\<close> and \<open>lockFunds\<close>, methods of Bob's session that
  are not part of the sources at hand. The first binds the contract at the announced
  address (the handle is unset until then), the second locks X to the joint address and
  yields that address. Their results are the world's \<open>setContract_res\<close> and
  \<open>lockFunds_res\<close>.
\<close>

definition setContract :: "world \<Rightarrow> string \<Rightarrow> swapState_b \<Rightarrow> swapState_b \<times> error option" where
  "setContract W address s =
     (case setContract_res W of
        Some e \<Rightarrow> (s, Some e)
      | None \<Rightarrow> (s\<lparr>contract_b := Some address, contractAddr := address\<rparr>, None))"

definition handleNotifyContractDeployed :: "world \<Rightarrow> swapState_b \<Rightarrow> string \<Rightarrow>
    (swapState_b, reply) exec" where
  "handleNotifyContractDeployed W s address =
     (if address = [] then Return s [] (None, True, Some errMissingAddress_b)
      else
      let s1 = s\<lparr>nextExpectedMessage_b := NotifyReadyType\<rparr>;
          tr1 = [setContract_call (setContract_res W)] in
      case setContract W (HexToAddress W address) s1 of
        (s2, Some e) \<Rightarrow>
          Return s2 tr1 (None, True, Some (Wrap ''failed to instantiate contract instance'' e))
      | (s2, None) \<Rightarrow> (
      let tr2 = tr1 @ [lockFunds_call (lockFunds_res W)] in
      case lockFunds_res W of
        Inl e \<Rightarrow> Return s2 tr2 (None, True, Some (Wrap ''failed to lock funds'' e))
      | Inr addrAB \<Rightarrow> (
      case contract_b s2 of
        None \<Rightarrow> Panic s2 tr2
      | Some _ \<Rightarrow> (
      let tr3 = tr2 @ [Timeout0 (Timeout0_res W)] in
      case Timeout0_res W of
        Inl e \<Rightarrow>
          Return s2 tr3 (None, True, Some (Wrap ''failed to get timeout0 from contract'' e))
      | Inr st0 \<Rightarrow> (
      let s3 = s2\<lparr>t0_b := Unix (Int64 st0)\<rparr>;
          tr4 = tr3 @ [Timeout1 (Timeout1_res W)] in
      case Timeout1_res W of
        Inl e \<Rightarrow>
          Return s3 tr4 (None, True, Some (Wrap ''failed to get timeout1 from contract'' e))
      | Inr st1 \<Rightarrow> (
      let s4 = s3\<lparr>t1_b := Unix (Int64 st1)\<rparr> in
      Return s4 (tr4 @ [go T0Watchdog]) (Some (NotifyXMRLock addrAB), False, None)))))))"

definition handleNotifyReady :: "world \<Rightarrow> swapState_b \<Rightarrow> (swapState_b, reply) exec" where
  "handleNotifyReady W s =
     (if readyCh s then Panic s []
      else
      let s1 = s\<lparr>readyCh := True\<rparr>;
          tr = [close_chan ''readyCh'', claimFunds_call (now W) (claim_res W)] in
      case claimFunds W s1 of
        (s2, Inl e) \<Rightarrow> Return s2 tr (None, True, Some (Wrap ''failed to redeem ether'' e))
      | (s2, Inr txHash) \<Rightarrow> Return s2 tr (Some (NotifyClaimed txHash), True, None))"

definition HandleProtocolMessage_b :: "monero \<Rightarrow> world \<Rightarrow> swapState_b \<Rightarrow> message \<Rightarrow>
    (swapState_b, reply) exec" where
  "HandleProtocolMessage_b M W s msg =
     (case checkMessageType_b s msg of
        Some e \<Rightarrow> Return s [] (None, True, Some e)
      | None \<Rightarrow> (
      case msg of
        SendKeysMessage _ _ _ _ \<Rightarrow>
          (case handleSendKeysMessage_b M W s msg of
             (s', tr, Some e) \<Rightarrow> Return s' tr (None, True, Some e)
           | (s', tr, None) \<Rightarrow> Return s' tr (None, False, None))
      | NotifyContractDeployed address \<Rightarrow> handleNotifyContractDeployed W s address
      | NotifyReady \<Rightarrow> handleNotifyReady W s
      | NotifyRefund txHash \<Rightarrow>
          (case handleRefund M W s txHash of
             Panic s' tr \<Rightarrow> Panic s' tr
           | Return s' tr (Inl e) \<Rightarrow> Return s' tr (None, True, Some e)
           | Return s' tr (Inr addr) \<Rightarrow> Return s' tr (None, True, None))
      | _ \<Rightarrow> Return s [] (None, True, Some (New ''unexpected message type''))))"

section \<open>Reading a run\<close>

fun events_of :: "('s, 'r) exec \<Rightarrow> event list" where
  "events_of (Return s tr r) = tr"
| "events_of (Panic s tr) = tr"

fun state_of :: "('s, 'r) exec \<Rightarrow> 's" where
  "state_of (Return s tr r) = s"
| "state_of (Panic s tr) = s"

fun panics :: "('s, 'r) exec \<Rightarrow> bool" where
  "panics (Return s tr r) = False"
| "panics (Panic s tr) = True"

text \<open>
  Whether the shared wallet client is left on a view-only wallet by a sequence of effects:
  a successful \<open>GenerateViewOnlyWalletFromKeys\<close> opens one, a successful \<open>CloseWallet\<close>
  closes it.
\<close>

fun viewonly_open :: "bool \<Rightarrow> event list \<Rightarrow> bool" where
  "viewonly_open b [] = b"
| "viewonly_open b (GenerateViewOnlyWalletFromKeys _ _ _ None # tr) = viewonly_open True tr"
| "viewonly_open b (CloseWallet None # tr) = viewonly_open False tr"
| "viewonly_open b (_ # tr) = viewonly_open b tr"

section \<open>Example inputs\<close>

text \<open>
  A stand-in for package \<open>monero\<close> (keys are short strings, sums are written out), a world
  in which every call succeeds, and sessions of both sides at the points of the protocol
  that the examples below start from. Times are seconds from the start: \<open>t0 = 60\<close>,
  \<open>t1 = 120\<close>.
\<close>

definition monero_ex :: monero where
  "monero_ex =
     \<lparr> NewPrivateViewKeyFromHash = (\<lambda>h. Inr (''v'' @ h)),
       NewPrivateViewKeyFromHex = (\<lambda>x. Inr x),
       NewPublicKeyFromHex = (\<lambda>x. Inr x),
       NewPublicKeyPairFromHex = (\<lambda>x y. Inr (x, y)),
       NewPrivateSpendKey =
         (\<lambda>bs. if length bs = 32 then Inr ''a'' else Inl (New ''invalid key length'')),
       View = (\<lambda>k. Inr (''v'' @ k)),
       Public = (\<lambda>k. ''P'' @ k),
       SumPrivateViewKeys = (\<lambda>x y. x @ ''+'' @ y),
       SumPrivateSpendKeys = (\<lambda>x y. x @ ''+'' @ y),
       SumPublicKeys = (\<lambda>x y. x @ ''+'' @ y),
       Address = (\<lambda>kp. fst kp @ '':'' @ snd kp),
       Address_priv = (\<lambda>kp. ''P'' @ fst kp @ '':P'' @ snd kp) \<rparr>"

definition world_ok :: world where
  "world_ok =
     \<lparr> now = Unix 30,
       timestamp = ''2021-Oct-1-12:00:00'',
       basepath = ''/tmp/bob'',
       HexToAddress = (\<lambda>x. x),
       GenerateViewOnlyWalletFromKeys_res = None,
       GenerateFromKeys_res = None,
       Refresh_res = None,
       GetBalance_res = Inr 1000000000000,
       CloseWallet_res = None,
       openWallet_res = None,
       ready_res = None,
       refund_res = Inr ''0xrefund'',
       claim_res = Inr ''0xclaim'',
       deployAndLockETH_res = Inr ''0xswap'',
       setContract_res = None,
       lockFunds_res = Inr ''PA+PB:Pva+vb'',
       Timeout0_res = Inr 60,
       Timeout1_res = Inr 120,
       handleNotifyClaimed_res = Inr ''PA+PB:Pva+vb'',
       TransactionReceipt_res = Inr [replicate 32 1],
       abi_JSON_res = None,
       Unpack_Refunded =
         (\<lambda>d. if length d < 32 then Inl (New ''abi: cannot unmarshal'') else Inr (take 32 d)),
       WriteKeysToFile_res = None \<rparr>"

definition alice_WaitLock :: swapState_a where
  "alice_WaitLock =
     (newSwapState_a 0 10 1000000000000)
       \<lparr> privkeys_a := Some (''a'', ''va''), pubkeys_a := Some (''PA'', ''Pva''),
         bobPublicSpendKey := Some ''PB'', bobPrivateViewKey := Some ''vb'',
         contract_a := Some ''0xswap'', t0_a := Unix 60, t1_a := Unix 120,
         nextExpectedMessage_a := NotifyXMRLockType \<rparr>"

definition bob_WaitReady :: swapState_b where
  "bob_WaitReady =
     (newSwapState_b 7 1000000000000 10)
       \<lparr> privkeys_b := Some (''b'', ''vb''), pubkeys_b := Some (''PB'', ''Pvb''),
         contract_b := Some ''0xswap'', contractAddr := ''0xswap'',
         t0_b := Unix 60, t1_b := Unix 120,
         alicePublicKeys := Some (''PA'', ''Pva''), alicePrivateViewKey := Some ''va'',
         nextExpectedMessage_b := NotifyReadyType \<rparr>"

section \<open>The message gate\<close>

text \<open>
  C7. Bob's gate accepts a message exactly when it is a NotifyRefund or its kind is the
  expected one; Alice's gate accepts a message exactly when its kind is the expected one,
  so it rejects a NotifyRefund whenever NotifyRefund is not the expected kind.
\<close>

theorem checkMessageType_gate:
  "((checkMessageType_b sb msg = None) =
      (Type msg = NotifyRefundType \<or> Type msg = nextExpectedMessage_b sb)) \<and>
   ((checkMessageType_a sa msg = None) = (Type msg = nextExpectedMessage_a sa)) \<and>
   checkMessageType_b sb (NotifyRefund h) = None \<and>
   ((checkMessageType_a sa (NotifyRefund h) = None) =
      (nextExpectedMessage_a sa = NotifyRefundType))"
  by (cases msg) (auto simp: checkMessageType_b_def checkMessageType_a_def)

section \<open>Recovery on a closed stream\<close>

lemma After_nonpositive: "d \<le> 0 \<Longrightarrow> After d = 0"
  by (simp add: After_def)

lemma tryRefund_never_waits:
  "fst (tryRefund W s) = [refund_call (now W) (refund_res W)]"
  by (simp add: tryRefund_def Let_def After_def)

lemma tryClaim_never_waits:
  "fst (snd (tryClaim W s)) = [claimFunds_call (now W) (claim_res W)]"
  by (simp add: tryClaim_def Let_def After_def split: prod.splits)

text \<open>
  C1. Alice has audited the lock and called \<open>ready()\<close> (the run of the \<open>NotifyXMRLock\<close>
  handler below contains the call); the stream then closes at second 90, inside
  \<open>[t0, t1) = [60, 120)\<close>. \<open>ProtocolComplete\<close> submits the refund at second 90: it does
  not wait until \<open>t1\<close>.
\<close>

theorem tryRefund_inside_claim_window:
  "HandleProtocolMessage_a monero_ex world_ok alice_WaitLock (NotifyXMRLock ''PB+PA:Pvb+va'') =
     Return (alice_WaitLock\<lparr>nextExpectedMessage_a := NotifyClaimedType, xmrLockedCh := True\<rparr>)
       [GenerateViewOnlyWalletFromKeys ''vb+va'' ''PB+PA:Pvb+va''
          ''alice-viewonly-wallet-2021-Oct-1-12:00:00'' None,
        Refresh None, GetBalance (Inr 1000000000000), CloseWallet None,
        close_chan ''xmrLockedCh'', ready_call None, go PostT1Watchdog]
       (Some NotifyReady, False, None) \<and>
   ProtocolComplete_a (world_ok\<lparr>now := Unix 90\<rparr>)
       (alice_WaitLock\<lparr>nextExpectedMessage_a := NotifyClaimedType, xmrLockedCh := True\<rparr>) =
     [refund_call (Unix 90) (Inr ''0xrefund''), cancel, clear_swapState] \<and>
   Unix 60 \<le> Unix 90 \<and> Unix 90 < Unix 120"
  by (simp add: HandleProtocolMessage_a_def checkMessageType_a_def handleNotifyXMRLock_def
      ProtocolComplete_a_def tryRefund_never_waits
      alice_WaitLock_def newSwapState_a_def world_ok_def monero_ex_def
      float64_of_uint64_def Let_def bit_length.simps Unix_def Second_def)

text \<open>
  C2. Bob has locked his funds and awaits \<open>NotifyReady\<close>; the ready channel is open, so
  no \<open>NotifyReady\<close> has been observed. The stream closes at second 30, before
  \<open>t0 = 60\<close>. \<open>ProtocolComplete\<close> submits the claim at second 30: it does not wait
  until \<open>t0\<close>.
\<close>

theorem tryClaim_before_t0:
  "nextExpectedMessage_b bob_WaitReady = NotifyReadyType \<and> \<not> readyCh bob_WaitReady \<and>
   t0_b bob_WaitReady = Unix 60 \<and> now world_ok = Unix 30 \<and> Unix 30 < Unix 60 \<and>
   snd (ProtocolComplete_b world_ok bob_WaitReady) =
     [claimFunds_call (Unix 30) (Inr ''0xclaim''), cancel, clear_swapState]"
  by (simp add: ProtocolComplete_b_def tryClaim_def claimFunds_def After_def Until_def Sub_def
      minDuration_def maxDuration_def
      bob_WaitReady_def newSwapState_b_def world_ok_def Let_def Unix_def Second_def)


section \<open>The audit of the locked funds\<close>

lemma bit_length_le: "n < 2 ^ k \<Longrightarrow> bit_length n \<le> k"
proof (induction k arbitrary: n)
  case 0
  then show ?case by (simp add: bit_length.simps)
next
  case (Suc k)
  show ?case
  proof (cases "n = 0")
    case True
    then show ?thesis by (simp add: bit_length.simps)
  next
    case False
    from Suc.prems have "n div 2 < 2 ^ k" by simp
    then have "bit_length (n div 2) \<le> k" by (rule Suc.IH)
    with False show ?thesis by (subst bit_length.simps) simp
  qed
qed

lemma float64_of_uint64_exact:
  assumes "unat d \<le> 2 ^ 53"
  shows "float64_of_uint64 d = of_nat (unat d)"
proof (cases "unat d = 2 ^ 53")
  case True
  then show ?thesis
    by (simp add: float64_of_uint64_def Let_def bit_length.simps)
next
  case False
  with assms have "unat d < 2 ^ 53" by simp
  then have "bit_length (unat d) \<le> 53" by (rule bit_length_le)
  then show ?thesis by (simp add: float64_of_uint64_def Let_def)
qed

lemma handleNotifyXMRLock_ready:
  "ready_call x \<in> set (events_of (handleNotifyXMRLock M W s a)) \<Longrightarrow>
   \<exists>sk_a vk_a S_a V_a bvk bsk b rest.
     privkeys_a s = Some (sk_a, vk_a) \<and> pubkeys_a s = Some (S_a, V_a) \<and>
     bobPrivateViewKey s = Some bvk \<and> bobPublicSpendKey s = Some bsk \<and>
     a = Address M (SumPublicKeys M bsk S_a, Public M (SumPrivateViewKeys M bvk vk_a)) \<and>
     events_of (handleNotifyXMRLock M W s a) =
       [GenerateViewOnlyWalletFromKeys (SumPrivateViewKeys M bvk vk_a)
          (Address M (SumPublicKeys M bsk S_a, Public M (SumPrivateViewKeys M bvk vk_a)))
          (''alice-viewonly-wallet-'' @ timestamp W) None,
        Refresh None, GetBalance (Inr b),
        CloseWallet None, close_chan ''xmrLockedCh'', ready_call x] @ rest \<and>
     GetBalance_res W = Inr b \<and> float64_of_uint64 (desiredAmount_a s) \<le> b"
  by (auto simp: handleNotifyXMRLock_def Let_def
      split: option.splits sum.splits if_splits prod.splits)

lemma handleNotifyXMRLock_shortfall:
  "GetBalance_res W = Inr b \<Longrightarrow> b < float64_of_uint64 (desiredAmount_a s) \<Longrightarrow>
   \<not> panics (handleNotifyXMRLock M W s a) \<Longrightarrow>
   \<exists>s' tr e. handleNotifyXMRLock M W s a = Return s' tr (None, True, Some e)"
  by (auto simp: handleNotifyXMRLock_def Let_def
      split: option.splits sum.splits if_splits prod.splits)

lemma handleNotifyXMRLock_shortfall_panics:
  "GetBalance_res W = Inr b \<Longrightarrow> b < float64_of_uint64 (desiredAmount_a s) \<Longrightarrow>
   panics (handleNotifyXMRLock M W s a) \<Longrightarrow>
   privkeys_a s = None \<or> bobPrivateViewKey s = None \<or> pubkeys_a s = None \<or>
   bobPublicSpendKey s = None"
  by (auto simp: handleNotifyXMRLock_def Let_def
      split: option.splits sum.splits if_splits prod.splits)

lemma HandleProtocolMessage_a_NotifyXMRLock:
  "HandleProtocolMessage_a M W s (NotifyXMRLock a) =
     (if nextExpectedMessage_a s = NotifyXMRLockType then handleNotifyXMRLock M W s a
      else Return s [] (None, True, Some (New ''received unexpected message'')))"
  by (simp add: HandleProtocolMessage_a_def checkMessageType_a_def)

text \<open>
  C3, as the code has it. The balance is compared with \<open>float64(desiredAmount)\<close>, the
  double nearest to the desired amount. Whenever the handler of a \<open>NotifyXMRLock\<close> message
  calls \<open>ready()\<close>, the address of the message is the joint address (the address of Bob's
  public spend key plus Alice's, with the public key of Bob's private view key plus
  Alice's), and the handler has before that opened a view-only wallet on this address with
  the joint view key, refreshed it, read a balance of at least \<open>float64(desiredAmount)\<close>,
  and closed the wallet. Whenever the balance read is below \<open>float64(desiredAmount)\<close>,
  \<open>ready()\<close> is not called and the handler returns an error, unless it panics, which it
  only does where one of the four keys of the session is not set. For a desired amount of
  at most \<open>2 ^ 53\<close> the conversion is exact.
\<close>

theorem ready_only_after_audit:
  "(ready_call x \<in> set (events_of (HandleProtocolMessage_a M W s (NotifyXMRLock a))) \<longrightarrow>
      (\<exists>sk_a vk_a S_a V_a bvk bsk b rest.
         privkeys_a s = Some (sk_a, vk_a) \<and> pubkeys_a s = Some (S_a, V_a) \<and>
         bobPrivateViewKey s = Some bvk \<and> bobPublicSpendKey s = Some bsk \<and>
         a = Address M (SumPublicKeys M bsk S_a, Public M (SumPrivateViewKeys M bvk vk_a)) \<and>
         events_of (HandleProtocolMessage_a M W s (NotifyXMRLock a)) =
           [GenerateViewOnlyWalletFromKeys (SumPrivateViewKeys M bvk vk_a)
              (Address M (SumPublicKeys M bsk S_a, Public M (SumPrivateViewKeys M bvk vk_a)))
              (''alice-viewonly-wallet-'' @ timestamp W) None,
            Refresh None, GetBalance (Inr b),
            CloseWallet None, close_chan ''xmrLockedCh'', ready_call x] @ rest \<and>
         GetBalance_res W = Inr b \<and> float64_of_uint64 (desiredAmount_a s) \<le> b)) \<and>
   (GetBalance_res W = Inr b' \<and> b' < float64_of_uint64 (desiredAmount_a s) \<longrightarrow>
      (\<forall>y. ready_call y \<notin> set (events_of (HandleProtocolMessage_a M W s (NotifyXMRLock a)))) \<and>
      (\<not> panics (HandleProtocolMessage_a M W s (NotifyXMRLock a)) \<longrightarrow>
         (\<exists>s' tr e. HandleProtocolMessage_a M W s (NotifyXMRLock a) =
            Return s' tr (None, True, Some e))) \<and>
      (panics (HandleProtocolMessage_a M W s (NotifyXMRLock a)) \<longrightarrow>
         privkeys_a s = None \<or> bobPrivateViewKey s = None \<or> pubkeys_a s = None \<or>
         bobPublicSpendKey s = None)) \<and>
   (unat (desiredAmount_a s) \<le> 2 ^ 53 \<longrightarrow>
      float64_of_uint64 (desiredAmount_a s) = of_nat (unat (desiredAmount_a s)))"
proof (intro conjI impI allI)
  assume "ready_call x \<in> set (events_of (HandleProtocolMessage_a M W s (NotifyXMRLock a)))"
  then show "\<exists>sk_a vk_a S_a V_a bvk bsk b rest.
         privkeys_a s = Some (sk_a, vk_a) \<and> pubkeys_a s = Some (S_a, V_a) \<and>
         bobPrivateViewKey s = Some bvk \<and> bobPublicSpendKey s = Some bsk \<and>
         a = Address M (SumPublicKeys M bsk S_a, Public M (SumPrivateViewKeys M bvk vk_a)) \<and>
         events_of (HandleProtocolMessage_a M W s (NotifyXMRLock a)) =
           [GenerateViewOnlyWalletFromKeys (SumPrivateViewKeys M bvk vk_a)
              (Address M (SumPublicKeys M bsk S_a, Public M (SumPrivateViewKeys M bvk vk_a)))
              (''alice-viewonly-wallet-'' @ timestamp W) None,
            Refresh None, GetBalance (Inr b),
            CloseWallet None, close_chan ''xmrLockedCh'', ready_call x] @ rest \<and>
         GetBalance_res W = Inr b \<and> float64_of_uint64 (desiredAmount_a s) \<le> b"
    using handleNotifyXMRLock_ready [of x M W s a]
    by (simp add: HandleProtocolMessage_a_NotifyXMRLock split: if_splits)
next
  fix y
  assume short: "GetBalance_res W = Inr b' \<and> b' < float64_of_uint64 (desiredAmount_a s)"
  show "ready_call y \<notin> set (events_of (HandleProtocolMessage_a M W s (NotifyXMRLock a)))"
  proof
    assume "ready_call y \<in> set (events_of (HandleProtocolMessage_a M W s (NotifyXMRLock a)))"
    then have "ready_call y \<in> set (events_of (handleNotifyXMRLock M W s a))"
      by (simp add: HandleProtocolMessage_a_NotifyXMRLock split: if_splits)
    from handleNotifyXMRLock_ready [OF this] short show False by auto
  qed
next
  assume short: "GetBalance_res W = Inr b' \<and> b' < float64_of_uint64 (desiredAmount_a s)"
    and np: "\<not> panics (HandleProtocolMessage_a M W s (NotifyXMRLock a))"
  show "\<exists>s' tr e. HandleProtocolMessage_a M W s (NotifyXMRLock a) =
          Return s' tr (None, True, Some e)"
  proof (cases "nextExpectedMessage_a s = NotifyXMRLockType")
    case True
    with np have "\<not> panics (handleNotifyXMRLock M W s a)"
      by (simp add: HandleProtocolMessage_a_NotifyXMRLock)
    with short True show ?thesis
      using handleNotifyXMRLock_shortfall [of W b' s M a]
      by (simp add: HandleProtocolMessage_a_NotifyXMRLock)
  next
    case False
    then show ?thesis by (simp add: HandleProtocolMessage_a_NotifyXMRLock)
  qed
next
  assume short: "GetBalance_res W = Inr b' \<and> b' < float64_of_uint64 (desiredAmount_a s)"
    and p: "panics (HandleProtocolMessage_a M W s (NotifyXMRLock a))"
  from p have "panics (handleNotifyXMRLock M W s a)"
    by (simp add: HandleProtocolMessage_a_NotifyXMRLock split: if_splits)
  moreover from short have "GetBalance_res W = Inr b'"
    and "b' < float64_of_uint64 (desiredAmount_a s)" by simp_all
  ultimately show "privkeys_a s = None \<or> bobPrivateViewKey s = None \<or> pubkeys_a s = None \<or>
      bobPublicSpendKey s = None"
    by (rule handleNotifyXMRLock_shortfall_panics [rotated 2])
next
  assume "unat (desiredAmount_a s) \<le> 2 ^ 53"
  then show "float64_of_uint64 (desiredAmount_a s) = of_nat (unat (desiredAmount_a s))"
    by (rule float64_of_uint64_exact)
qed

lemma alice_WaitLock_run:
  "HandleProtocolMessage_a monero_ex world_ok alice_WaitLock (NotifyXMRLock ''PB+PA:Pvb+va'') =
     Return (alice_WaitLock\<lparr>nextExpectedMessage_a := NotifyClaimedType, xmrLockedCh := True\<rparr>)
       [GenerateViewOnlyWalletFromKeys ''vb+va'' ''PB+PA:Pvb+va''
          ''alice-viewonly-wallet-2021-Oct-1-12:00:00'' None,
        Refresh None, GetBalance (Inr 1000000000000), CloseWallet None,
        close_chan ''xmrLockedCh'', ready_call None, go PostT1Watchdog]
       (Some NotifyReady, False, None)"
  by (simp add: HandleProtocolMessage_a_def checkMessageType_a_def handleNotifyXMRLock_def
      alice_WaitLock_def newSwapState_a_def world_ok_def monero_ex_def
      float64_of_uint64_def Let_def bit_length.simps)

lemma alice_WaitLock_short_run:
  "HandleProtocolMessage_a monero_ex (world_ok\<lparr>GetBalance_res := Inr 500000000000\<rparr>)
       alice_WaitLock (NotifyXMRLock ''PB+PA:Pvb+va'') =
     Return alice_WaitLock
       [GenerateViewOnlyWalletFromKeys ''vb+va'' ''PB+PA:Pvb+va''
          ''alice-viewonly-wallet-2021-Oct-1-12:00:00'' None,
        Refresh None, GetBalance (Inr 500000000000)]
       (None, True, Some (errAmountTooLow 500000000000 1000000000000))"
  by (simp add: HandleProtocolMessage_a_def checkMessageType_a_def handleNotifyXMRLock_def
      alice_WaitLock_def newSwapState_a_def world_ok_def monero_ex_def
      float64_of_uint64_def Let_def bit_length.simps)

lemma alice_WaitLock_keys:
  "privkeys_a alice_WaitLock = Some (''a'', ''va'') \<and>
   pubkeys_a alice_WaitLock = Some (''PA'', ''Pva'') \<and>
   bobPrivateViewKey alice_WaitLock = Some ''vb'' \<and>
   bobPublicSpendKey alice_WaitLock = Some ''PB''"
  by (simp add: alice_WaitLock_def newSwapState_a_def)

theorem ready_only_after_audit_witness:
  "ready_call None \<in> set (events_of
      (HandleProtocolMessage_a monero_ex world_ok alice_WaitLock (NotifyXMRLock ''PB+PA:Pvb+va''))) \<and>
   GetBalance_res world_ok = Inr 1000000000000 \<and>
   ''PB+PA:Pvb+va'' =
     Address monero_ex (SumPublicKeys monero_ex ''PB'' ''PA'',
                        Public monero_ex (SumPrivateViewKeys monero_ex ''vb'' ''va'')) \<and>
   float64_of_uint64 (desiredAmount_a alice_WaitLock) \<le> 1000000000000 \<and>
   GetBalance_res (world_ok\<lparr>GetBalance_res := Inr 500000000000\<rparr>) = Inr 500000000000 \<and>
   500000000000 < float64_of_uint64 (desiredAmount_a alice_WaitLock) \<and>
   \<not> panics (HandleProtocolMessage_a monero_ex (world_ok\<lparr>GetBalance_res := Inr 500000000000\<rparr>)
      alice_WaitLock (NotifyXMRLock ''PB+PA:Pvb+va'')) \<and>
   (\<forall>y. ready_call y \<notin> set (events_of
      (HandleProtocolMessage_a monero_ex (world_ok\<lparr>GetBalance_res := Inr 500000000000\<rparr>)
         alice_WaitLock (NotifyXMRLock ''PB+PA:Pvb+va'')))) \<and>
   (\<exists>s' tr e. HandleProtocolMessage_a monero_ex (world_ok\<lparr>GetBalance_res := Inr 500000000000\<rparr>)
         alice_WaitLock (NotifyXMRLock ''PB+PA:Pvb+va'') = Return s' tr (None, True, Some e)) \<and>
   panics (HandleProtocolMessage_a monero_ex (world_ok\<lparr>GetBalance_res := Inr 500000000000\<rparr>)
      (alice_WaitLock\<lparr>privkeys_a := None\<rparr>) (NotifyXMRLock ''PB+PA:Pvb+va'')) \<and>
   (privkeys_a (alice_WaitLock\<lparr>privkeys_a := None\<rparr>) = None \<or>
    bobPrivateViewKey (alice_WaitLock\<lparr>privkeys_a := None\<rparr>) = None \<or>
    pubkeys_a (alice_WaitLock\<lparr>privkeys_a := None\<rparr>) = None \<or>
    bobPublicSpendKey (alice_WaitLock\<lparr>privkeys_a := None\<rparr>) = None) \<and>
   unat (desiredAmount_a alice_WaitLock) \<le> 2 ^ 53 \<and>
   float64_of_uint64 (desiredAmount_a alice_WaitLock) = of_nat (unat (desiredAmount_a alice_WaitLock))"
proof -
  have h1: "ready_call None \<in> set (events_of
      (HandleProtocolMessage_a monero_ex world_ok alice_WaitLock (NotifyXMRLock ''PB+PA:Pvb+va'')))"
    by (simp add: alice_WaitLock_run)
  have h2: "GetBalance_res (world_ok\<lparr>GetBalance_res := Inr 500000000000\<rparr>) = Inr 500000000000 \<and>
      500000000000 < float64_of_uint64 (desiredAmount_a alice_WaitLock)"
    by (simp add: alice_WaitLock_def newSwapState_a_def float64_of_uint64_def Let_def
        bit_length.simps)
  have h2': "GetBalance_res (world_ok\<lparr>GetBalance_res := Inr 500000000000\<rparr>) = Inr 500000000000 \<and>
      500000000000 < float64_of_uint64 (desiredAmount_a (alice_WaitLock\<lparr>privkeys_a := None\<rparr>))"
    using h2 by simp
  have h3: "\<not> panics (HandleProtocolMessage_a monero_ex
      (world_ok\<lparr>GetBalance_res := Inr 500000000000\<rparr>) alice_WaitLock
      (NotifyXMRLock ''PB+PA:Pvb+va''))"
    by (simp add: alice_WaitLock_short_run)
  have h3': "panics (HandleProtocolMessage_a monero_ex
      (world_ok\<lparr>GetBalance_res := Inr 500000000000\<rparr>) (alice_WaitLock\<lparr>privkeys_a := None\<rparr>)
      (NotifyXMRLock ''PB+PA:Pvb+va''))"
    by (simp add: HandleProtocolMessage_a_def checkMessageType_a_def handleNotifyXMRLock_def
        alice_WaitLock_def newSwapState_a_def)
  have h4: "unat (desiredAmount_a alice_WaitLock) \<le> 2 ^ 53"
    by (simp add: alice_WaitLock_def newSwapState_a_def)
  have b: "GetBalance_res world_ok = Inr 1000000000000"
    by (simp add: world_ok_def)
  have j: "''PB+PA:Pvb+va'' =
     Address monero_ex (SumPublicKeys monero_ex ''PB'' ''PA'',
                        Public monero_ex (SumPrivateViewKeys monero_ex ''vb'' ''va''))"
    by (simp add: monero_ex_def)
  note a1 = ready_only_after_audit [of None monero_ex world_ok alice_WaitLock "''PB+PA:Pvb+va''"]
  note a2 = ready_only_after_audit [of None monero_ex
      "world_ok\<lparr>GetBalance_res := Inr 500000000000\<rparr>" alice_WaitLock "''PB+PA:Pvb+va''"
      500000000000]
  note a3 = ready_only_after_audit [of None monero_ex
      "world_ok\<lparr>GetBalance_res := Inr 500000000000\<rparr>" "alice_WaitLock\<lparr>privkeys_a := None\<rparr>"
      "''PB+PA:Pvb+va''" 500000000000]
  note r1 = a1 [THEN conjunct1, THEN mp, OF h1]
  note r2 = a2 [THEN conjunct2, THEN conjunct1, THEN mp, OF h2]
  note r3 = a3 [THEN conjunct2, THEN conjunct1, THEN mp, OF h2']
  from r1 b have c1: "float64_of_uint64 (desiredAmount_a alice_WaitLock) \<le> 1000000000000"
    by auto
  note c2a = r2 [THEN conjunct1]
  note c2b = r2 [THEN conjunct2, THEN conjunct1, THEN mp, OF h3]
  note c4 = r3 [THEN conjunct2, THEN conjunct2, THEN mp, OF h3']
  note c3 = a1 [THEN conjunct2, THEN conjunct2, THEN mp, OF h4]
  note h2a = h2 [THEN conjunct1]
  note h2b = h2 [THEN conjunct2]
  show ?thesis
    by (intro conjI) (fact h1 b j c1 h2a h2b h3 c2a c2b h3' c4 h4 c3)+
qed

text \<open>
  The claim with \<open>desiredAmount\<close> itself fails where the conversion rounds down: the
  desired amount is \<open>2 ^ 53 + 1\<close>, the wallet holds \<open>2 ^ 53\<close>, and \<open>ready()\<close> is called.
  And where the balance is short, the handler does not return an error when the session's
  own private keys are not set: it panics on reading the view key through them.
\<close>

theorem ready_below_desiredAmount:
  "GetBalance_res (world_ok\<lparr>GetBalance_res := Inr 9007199254740992\<rparr>) = Inr 9007199254740992 \<and>
   (9007199254740992 :: rat) <
     of_nat (unat (desiredAmount_a (alice_WaitLock\<lparr>desiredAmount_a := 9007199254740993\<rparr>))) \<and>
   HandleProtocolMessage_a monero_ex (world_ok\<lparr>GetBalance_res := Inr 9007199254740992\<rparr>)
       (alice_WaitLock\<lparr>desiredAmount_a := 9007199254740993\<rparr>) (NotifyXMRLock ''PB+PA:Pvb+va'') =
     Return (alice_WaitLock\<lparr>desiredAmount_a := 9007199254740993,
               nextExpectedMessage_a := NotifyClaimedType, xmrLockedCh := True\<rparr>)
       [GenerateViewOnlyWalletFromKeys ''vb+va'' ''PB+PA:Pvb+va''
          ''alice-viewonly-wallet-2021-Oct-1-12:00:00'' None,
        Refresh None, GetBalance (Inr 9007199254740992), CloseWallet None,
        close_chan ''xmrLockedCh'', ready_call None, go PostT1Watchdog]
       (Some NotifyReady, False, None) \<and>
   GetBalance_res (world_ok\<lparr>GetBalance_res := Inr 500000000000\<rparr>) = Inr 500000000000 \<and>
   (500000000000 :: rat) <
     of_nat (unat (desiredAmount_a (alice_WaitLock\<lparr>privkeys_a := None\<rparr>))) \<and>
   HandleProtocolMessage_a monero_ex (world_ok\<lparr>GetBalance_res := Inr 500000000000\<rparr>)
       (alice_WaitLock\<lparr>privkeys_a := None\<rparr>) (NotifyXMRLock ''PB+PA:Pvb+va'') =
     Panic (alice_WaitLock\<lparr>privkeys_a := None\<rparr>) []"
  by (simp add: HandleProtocolMessage_a_def checkMessageType_a_def handleNotifyXMRLock_def
      alice_WaitLock_def newSwapState_a_def world_ok_def monero_ex_def
      float64_of_uint64_def Let_def bit_length.simps)

text \<open>
  Key verification closes the view-only wallet right after opening it. The audit leaves
  it open on exactly its three failure paths after the wallet has opened.
\<close>

lemma verifyBobKeys_closes:
  "CloseWallet_res W = None \<Longrightarrow> \<not> viewonly_open False (fst (snd (verifyBobKeys M W s msg)))"
  by (auto simp: verifyBobKeys_def Let_def split: option.splits sum.splits if_splits)

lemma handleSendKeysMessage_b_closes:
  "CloseWallet_res W = None \<Longrightarrow>
   \<not> viewonly_open False (fst (snd (handleSendKeysMessage_b M W s msg)))"
  by (auto simp: handleSendKeysMessage_b_def Let_def split: option.splits sum.splits if_splits)

lemma handleNotifyXMRLock_leaves_open:
  "CloseWallet_res W = None \<Longrightarrow>
   viewonly_open False (events_of (handleNotifyXMRLock M W s a)) \<Longrightarrow>
   GenerateViewOnlyWalletFromKeys_res W = None \<and>
   (Refresh_res W \<noteq> None \<or> (\<exists>e. GetBalance_res W = Inl e) \<or>
    (\<exists>b. GetBalance_res W = Inr b \<and> b < float64_of_uint64 (desiredAmount_a s)))"
  by (auto simp: handleNotifyXMRLock_def Let_def
      split: option.splits sum.splits if_splits prod.splits)

text \<open>
  C9. The wallet opens, the refresh fails: the handler returns the error with the
  view-only wallet still open. The same happens when the balance is short.
\<close>

theorem audit_leaves_wallet_open:
  "HandleProtocolMessage_a monero_ex (world_ok\<lparr>Refresh_res := Some (New ''no connection'')\<rparr>)
       alice_WaitLock (NotifyXMRLock ''PB+PA:Pvb+va'') =
     Return alice_WaitLock
       [GenerateViewOnlyWalletFromKeys ''vb+va'' ''PB+PA:Pvb+va''
          ''alice-viewonly-wallet-2021-Oct-1-12:00:00'' None,
        Refresh (Some (New ''no connection''))]
       (None, True, Some (New ''no connection'')) \<and>
   viewonly_open False
       [GenerateViewOnlyWalletFromKeys ''vb+va'' ''PB+PA:Pvb+va''
          ''alice-viewonly-wallet-2021-Oct-1-12:00:00'' None,
        Refresh (Some (New ''no connection''))] \<and>
   viewonly_open False (events_of
     (HandleProtocolMessage_a monero_ex (world_ok\<lparr>GetBalance_res := Inr 500000000000\<rparr>)
        alice_WaitLock (NotifyXMRLock ''PB+PA:Pvb+va'')))"
  by (simp add: HandleProtocolMessage_a_def checkMessageType_a_def handleNotifyXMRLock_def
      alice_WaitLock_def newSwapState_a_def world_ok_def monero_ex_def
      float64_of_uint64_def Let_def bit_length.simps)


section \<open>Verification of the peer's keys\<close>

lemma handleSendKeysMessage_b_verified:
  "handleSendKeysMessage_b M W s msg = (s', tr, None) \<Longrightarrow>
   PublicSpendKey msg \<noteq> [] \<and> PrivateViewKey msg \<noteq> [] \<and> SpendKeyHash msg \<noteq> [] \<and>
   (\<exists>vk. NewPrivateViewKeyFromHash M (SpendKeyHash msg) = Inr vk \<and>
         NewPrivateViewKeyFromHex M (PrivateViewKey msg) = Inr vk) \<and>
   GenerateViewOnlyWalletFromKeys_res W = None"
  by (auto simp: handleSendKeysMessage_b_def Let_def
      split: option.splits sum.splits if_splits)

lemma verifyBobKeys_verified:
  "verifyBobKeys M W s msg = (s', tr, None) \<Longrightarrow>
   (\<exists>vk. NewPrivateViewKeyFromHash M (SpendKeyHash msg) = Inr vk \<and>
         NewPrivateViewKeyFromHex M (PrivateViewKey msg) = Inr vk) \<and>
   GenerateViewOnlyWalletFromKeys_res W = None"
  by (auto simp: verifyBobKeys_def Let_def split: option.splits sum.splits if_splits)

lemma verifyBobKeys_state:
  "verifyBobKeys M W s msg = (s', tr, r) \<Longrightarrow>
   nextExpectedMessage_a s' = nextExpectedMessage_a s \<and>
   bobPublicSpendKey s' = bobPublicSpendKey s \<and> bobPrivateViewKey s' = bobPrivateViewKey s"
  by (auto simp: verifyBobKeys_def Let_def split: option.splits sum.splits if_splits)

lemma handleSendKeysMessage_a_verified:
  assumes "nextExpectedMessage_a (state_of (handleSendKeysMessage_a M W s msg)) \<noteq>
             nextExpectedMessage_a s \<or>
           bobPublicSpendKey (state_of (handleSendKeysMessage_a M W s msg)) \<noteq>
             bobPublicSpendKey s \<or>
           bobPrivateViewKey (state_of (handleSendKeysMessage_a M W s msg)) \<noteq>
             bobPrivateViewKey s"
  shows "PublicSpendKey msg \<noteq> [] \<and> PrivateViewKey msg \<noteq> [] \<and> SpendKeyHash msg \<noteq> [] \<and>
         EthAddress msg \<noteq> [] \<and>
         (\<exists>vk. NewPrivateViewKeyFromHash M (SpendKeyHash msg) = Inr vk \<and>
               NewPrivateViewKeyFromHex M (PrivateViewKey msg) = Inr vk) \<and>
         GenerateViewOnlyWalletFromKeys_res W = None"
proof (cases "verifyBobKeys M W s msg")
  case (fields s1 tr r)
  note st = verifyBobKeys_state [OF fields]
  show ?thesis
  proof (cases r)
    case None
    from verifyBobKeys_verified [OF fields [unfolded None]] assms show ?thesis
      by (auto simp: handleSendKeysMessage_a_def split: if_splits)
  next
    case (Some e)
    with assms fields st show ?thesis
      by (auto simp: handleSendKeysMessage_a_def split: if_splits)
  qed
qed

text \<open>
  C4. Bob's session, freshly created, receives a \<open>SendKeys\<close> message whose announced
  view key \<open>va\<close> is not the one derived from the spend key hash: the handler returns the
  mismatch error, but the session already expects \<open>NotifyContractDeployed\<close>, which the
  gate will now accept. When the keys match and only the wallet cannot be opened, the
  handler returns the error with Alice's private view key stored in the session.
\<close>

theorem handleSendKeysMessage_b_stores_before_verifying:
  "HandleProtocolMessage_b monero_ex world_ok (newSwapState_b 7 1000000000000 10)
       (SendKeysMessage ''PA'' ''va'' ''hh'' []) =
     Return ((newSwapState_b 7 1000000000000 10)
               \<lparr>nextExpectedMessage_b := NotifyContractDeployedType\<rparr>)
       [] (None, True, Some (errViewKeyMismatch ''vhh'' ''va'')) \<and>
   checkMessageType_b ((newSwapState_b 7 1000000000000 10)
               \<lparr>nextExpectedMessage_b := NotifyContractDeployedType\<rparr>)
       (NotifyContractDeployed ''0xswap'') = None \<and>
   HandleProtocolMessage_b monero_ex
       (world_ok\<lparr>GenerateViewOnlyWalletFromKeys_res := Some (New ''no connection'')\<rparr>)
       (newSwapState_b 7 1000000000000 10) (SendKeysMessage ''PA'' ''vhh'' ''hh'' []) =
     Return ((newSwapState_b 7 1000000000000 10)
               \<lparr>nextExpectedMessage_b := NotifyContractDeployedType,
                alicePrivateViewKey := Some ''vhh''\<rparr>)
       [GenerateViewOnlyWalletFromKeys ''vhh'' ''PA:Pvhh''
          ''alice-viewonly-wallet-2021-Oct-1-12:00:00'' (Some (New ''no connection''))]
       (None, True,
        Some (Wrap ''failed to generate view-only wallet to verify Alice's keys''
               (New ''no connection'')))"
  by (simp add: HandleProtocolMessage_b_def checkMessageType_b_def handleSendKeysMessage_b_def
      newSwapState_b_def world_ok_def monero_ex_def Let_def)

section \<open>Duplicate messages\<close>

text \<open>
  A message that the gate rejects leaves the session as it was. A message that was
  accepted and answered without ending the stream has advanced the expected kind, so a
  second copy of it is rejected.
\<close>

lemma gate_rejects_b:
  "checkMessageType_b s msg = Some e \<Longrightarrow>
   HandleProtocolMessage_b M W s msg = Return s [] (None, True, Some e)"
  by (simp add: HandleProtocolMessage_b_def)

lemma gate_rejects_a:
  "checkMessageType_a s msg = Some e \<Longrightarrow>
   HandleProtocolMessage_a M W s msg = Return s [] (None, True, Some e)"
  by (simp add: HandleProtocolMessage_a_def)

lemma duplicate_rejected_b:
  "HandleProtocolMessage_b M W s msg = Return s' tr (resp, False, None) \<Longrightarrow>
   HandleProtocolMessage_b M W' s' msg =
     Return s' [] (None, True, Some (New ''received unexpected message''))"
  by (cases msg)
     (auto simp: HandleProtocolMessage_b_def checkMessageType_b_def handleSendKeysMessage_b_def
      handleNotifyContractDeployed_def handleNotifyReady_def handleRefund_def
      createMoneroWallet_def claimFunds_def setContract_def setAlicePublicKeys_def Let_def
      split: option.splits sum.splits list.splits prod.splits if_splits exec.splits)

lemma duplicate_rejected_a:
  "HandleProtocolMessage_a M W s msg = Return s' tr (resp, False, None) \<Longrightarrow>
   HandleProtocolMessage_a M W' s' msg =
     Return s' [] (None, True, Some (New ''received unexpected message''))"
  by (cases msg)
     (auto simp: HandleProtocolMessage_a_def checkMessageType_a_def handleSendKeysMessage_a_def
      handleNotifyXMRLock_def verifyBobKeys_def deployAndLockETH_def setBobKeys_def
      handleNotifyClaimed_def Let_def
      split: option.splits sum.splits list.splits prod.splits if_splits exec.splits)

text \<open>
  C5. Bob accepts \<open>NotifyReady\<close> and claims. The session still expects \<open>NotifyReady\<close>,
  so the gate accepts a second copy, and the handler closes the ready channel a second
  time, which panics. On Alice's side the gate likewise accepts a second
  \<open>NotifyClaimed\<close> after the first.
\<close>

theorem duplicate_NotifyReady_panics:
  "HandleProtocolMessage_b monero_ex world_ok bob_WaitReady NotifyReady =
     Return (bob_WaitReady\<lparr>readyCh := True, success_b := True\<rparr>)
       [close_chan ''readyCh'', claimFunds_call (Unix 30) (Inr ''0xclaim'')]
       (Some (NotifyClaimed ''0xclaim''), True, None) \<and>
   checkMessageType_b (bob_WaitReady\<lparr>readyCh := True, success_b := True\<rparr>) NotifyReady = None \<and>
   HandleProtocolMessage_b monero_ex world_ok
       (bob_WaitReady\<lparr>readyCh := True, success_b := True\<rparr>) NotifyReady =
     Panic (bob_WaitReady\<lparr>readyCh := True, success_b := True\<rparr>) [] \<and>
   checkMessageType_a
       (alice_WaitLock\<lparr>nextExpectedMessage_a := NotifyClaimedType, xmrLockedCh := True,
                       claimedCh := True\<rparr>)
       (NotifyClaimed ''0xclaim'') = None"
  by (simp add: HandleProtocolMessage_b_def checkMessageType_b_def checkMessageType_a_def
      handleNotifyReady_def claimFunds_def
      bob_WaitReady_def newSwapState_b_def alice_WaitLock_def newSwapState_a_def
      world_ok_def monero_ex_def Let_def)

section \<open>Recovery after Alice's refund\<close>

lemma HandleProtocolMessage_b_NotifyRefund:
  "events_of (HandleProtocolMessage_b M W s (NotifyRefund h)) = events_of (handleRefund M W s h) \<and>
   state_of (HandleProtocolMessage_b M W s (NotifyRefund h)) = state_of (handleRefund M W s h) \<and>
   panics (HandleProtocolMessage_b M W s (NotifyRefund h)) = panics (handleRefund M W s h)"
  by (simp add: HandleProtocolMessage_b_def checkMessageType_b_def
      split: exec.splits sum.splits)

lemma handleRefund_writes:
  "TransactionReceipt_res W = Inr (data # logs) \<Longrightarrow> abi_JSON_res W = None \<Longrightarrow>
   Unpack_Refunded W data = Inr sa \<Longrightarrow> NewPrivateSpendKey M sa = Inr skA \<Longrightarrow>
   View M skA = Inr vkA \<Longrightarrow> privkeys_b s = Some (sk, vk) \<Longrightarrow>
   \<exists>rest. events_of (handleRefund M W s txHash) =
     [TransactionReceipt txHash (Inr (data # logs)),
      WriteKeysToFile (basepath W @ ''/'' @ decimal (unat (id_b s)) @ ''/swap-secret'')
        (SumPrivateSpendKeys M skA sk, SumPrivateViewKeys M vkA vk)
        (WriteKeysToFile_res W)] @ rest"
  by (auto simp: handleRefund_def createMoneroWallet_def Let_def
      split: option.splits sum.splits)

lemma handleRefund_order:
  "GenerateFromKeys kp name x \<in> set (events_of (handleRefund M W s txHash)) \<or>
   (success_b (state_of (handleRefund M W s txHash)) \<and> \<not> success_b s) \<Longrightarrow>
   \<exists>data logs sa skA vkA sk vk rest.
     TransactionReceipt_res W = Inr (data # logs) \<and> Unpack_Refunded W data = Inr sa \<and>
     NewPrivateSpendKey M sa = Inr skA \<and> View M skA = Inr vkA \<and> privkeys_b s = Some (sk, vk) \<and>
     events_of (handleRefund M W s txHash) =
       [TransactionReceipt txHash (Inr (data # logs)),
        WriteKeysToFile (basepath W @ ''/'' @ decimal (unat (id_b s)) @ ''/swap-secret'')
          (SumPrivateSpendKeys M skA sk, SumPrivateViewKeys M vkA vk) None,
        GenerateFromKeys (SumPrivateSpendKeys M skA sk, SumPrivateViewKeys M vkA vk)
          (''bob-swap-wallet-'' @ timestamp W) (GenerateFromKeys_res W)] @ rest"
  by (auto simp: handleRefund_def createMoneroWallet_def Let_def
      split: option.splits sum.splits list.splits prod.splits)

text \<open>
  C8. On a \<open>NotifyRefund\<close> message Bob fetches the receipt of the named transaction and
  decodes Alice's secret from the data of its first log as a \<open>Refunded\<close> event. When
  that succeeds and the secret is a spend key, Bob's next effect is to write the pair of
  sums \<open>(s_alice + s_bob, v_alice + v_bob)\<close> to \<open><basepath>/<id>/swap-secret\<close>. Whenever
  the spendable wallet is created, or the success flag is set, the write of that pair has
  succeeded before.
\<close>

theorem refund_secret_written_first:
  "(TransactionReceipt_res W = Inr (data # logs) \<and> abi_JSON_res W = None \<and>
    Unpack_Refunded W data = Inr sa \<and> NewPrivateSpendKey M sa = Inr skA \<and>
    View M skA = Inr vkA \<and> privkeys_b s = Some (sk, vk) \<longrightarrow>
    (\<exists>rest. events_of (HandleProtocolMessage_b M W s (NotifyRefund txHash)) =
       [TransactionReceipt txHash (Inr (data # logs)),
        WriteKeysToFile (basepath W @ ''/'' @ decimal (unat (id_b s)) @ ''/swap-secret'')
          (SumPrivateSpendKeys M skA sk, SumPrivateViewKeys M vkA vk)
          (WriteKeysToFile_res W)] @ rest)) \<and>
   (GenerateFromKeys kp name x \<in>
        set (events_of (HandleProtocolMessage_b M W s (NotifyRefund txHash))) \<or>
    (success_b (state_of (HandleProtocolMessage_b M W s (NotifyRefund txHash))) \<and>
       \<not> success_b s) \<longrightarrow>
    (\<exists>data' logs' sa' skA' vkA' sk' vk' rest.
       TransactionReceipt_res W = Inr (data' # logs') \<and> Unpack_Refunded W data' = Inr sa' \<and>
       NewPrivateSpendKey M sa' = Inr skA' \<and> View M skA' = Inr vkA' \<and>
       privkeys_b s = Some (sk', vk') \<and>
       events_of (HandleProtocolMessage_b M W s (NotifyRefund txHash)) =
         [TransactionReceipt txHash (Inr (data' # logs')),
          WriteKeysToFile (basepath W @ ''/'' @ decimal (unat (id_b s)) @ ''/swap-secret'')
            (SumPrivateSpendKeys M skA' sk', SumPrivateViewKeys M vkA' vk') None,
          GenerateFromKeys (SumPrivateSpendKeys M skA' sk', SumPrivateViewKeys M vkA' vk')
            (''bob-swap-wallet-'' @ timestamp W) (GenerateFromKeys_res W)] @ rest))"
proof (intro conjI impI)
  assume "TransactionReceipt_res W = Inr (data # logs) \<and> abi_JSON_res W = None \<and>
    Unpack_Refunded W data = Inr sa \<and> NewPrivateSpendKey M sa = Inr skA \<and>
    View M skA = Inr vkA \<and> privkeys_b s = Some (sk, vk)"
  then show "\<exists>rest. events_of (HandleProtocolMessage_b M W s (NotifyRefund txHash)) =
       [TransactionReceipt txHash (Inr (data # logs)),
        WriteKeysToFile (basepath W @ ''/'' @ decimal (unat (id_b s)) @ ''/swap-secret'')
          (SumPrivateSpendKeys M skA sk, SumPrivateViewKeys M vkA vk)
          (WriteKeysToFile_res W)] @ rest"
    using handleRefund_writes [of W data logs sa M skA vkA s sk vk txHash]
    by (simp add: HandleProtocolMessage_b_NotifyRefund)
next
  assume "GenerateFromKeys kp name x \<in>
        set (events_of (HandleProtocolMessage_b M W s (NotifyRefund txHash))) \<or>
    (success_b (state_of (HandleProtocolMessage_b M W s (NotifyRefund txHash))) \<and>
       \<not> success_b s)"
  then have "GenerateFromKeys kp name x \<in> set (events_of (handleRefund M W s txHash)) \<or>
      (success_b (state_of (handleRefund M W s txHash)) \<and> \<not> success_b s)"
    by (simp add: HandleProtocolMessage_b_NotifyRefund)
  from handleRefund_order [OF this]
  show "\<exists>data' logs' sa' skA' vkA' sk' vk' rest.
       TransactionReceipt_res W = Inr (data' # logs') \<and> Unpack_Refunded W data' = Inr sa' \<and>
       NewPrivateSpendKey M sa' = Inr skA' \<and> View M skA' = Inr vkA' \<and>
       privkeys_b s = Some (sk', vk') \<and>
       events_of (HandleProtocolMessage_b M W s (NotifyRefund txHash)) =
         [TransactionReceipt txHash (Inr (data' # logs')),
          WriteKeysToFile (basepath W @ ''/'' @ decimal (unat (id_b s)) @ ''/swap-secret'')
            (SumPrivateSpendKeys M skA' sk', SumPrivateViewKeys M vkA' vk') None,
          GenerateFromKeys (SumPrivateSpendKeys M skA' sk', SumPrivateViewKeys M vkA' vk')
            (''bob-swap-wallet-'' @ timestamp W) (GenerateFromKeys_res W)] @ rest"
    by (simp add: HandleProtocolMessage_b_NotifyRefund)
qed

lemma decimal_7: "decimal 7 = ''7''"
  by code_simp

lemma bob_WaitReady_refund_run:
  "HandleProtocolMessage_b monero_ex world_ok bob_WaitReady (NotifyRefund ''0xrefund'') =
     Return (bob_WaitReady\<lparr>success_b := True\<rparr>)
       [TransactionReceipt ''0xrefund'' (Inr [replicate 32 1]),
        WriteKeysToFile ''/tmp/bob/7/swap-secret'' (''a+b'', ''va+vb'') None,
        GenerateFromKeys (''a+b'', ''va+vb'') ''bob-swap-wallet-2021-Oct-1-12:00:00'' None,
        Refresh None, GetBalance (Inr 1000000000000)]
       (None, True, None)"
  by (simp add: HandleProtocolMessage_b_def checkMessageType_b_def handleRefund_def
      createMoneroWallet_def bob_WaitReady_def newSwapState_b_def world_ok_def monero_ex_def
      Let_def decimal_7)

theorem refund_secret_written_first_witness:
  "TransactionReceipt_res world_ok = Inr (replicate 32 1 # []) \<and> abi_JSON_res world_ok = None \<and>
   Unpack_Refunded world_ok (replicate 32 1) = Inr (replicate 32 1) \<and>
   NewPrivateSpendKey monero_ex (replicate 32 1) = Inr ''a'' \<and>
   View monero_ex ''a'' = Inr ''va'' \<and> privkeys_b bob_WaitReady = Some (''b'', ''vb'') \<and>
   GenerateFromKeys (''a+b'', ''va+vb'') ''bob-swap-wallet-2021-Oct-1-12:00:00'' None \<in>
     set (events_of (HandleProtocolMessage_b monero_ex world_ok bob_WaitReady
                       (NotifyRefund ''0xrefund''))) \<and>
   (\<exists>rest. events_of (HandleProtocolMessage_b monero_ex world_ok bob_WaitReady
                       (NotifyRefund ''0xrefund'')) =
       [TransactionReceipt ''0xrefund'' (Inr [replicate 32 1]),
        WriteKeysToFile ''/tmp/bob/7/swap-secret'' (''a+b'', ''va+vb'') None] @ rest)"
proof -
  have h: "TransactionReceipt_res world_ok = Inr (replicate 32 1 # []) \<and>
      abi_JSON_res world_ok = None \<and>
      Unpack_Refunded world_ok (replicate 32 1) = Inr (replicate 32 1) \<and>
      NewPrivateSpendKey monero_ex (replicate 32 1) = Inr ''a'' \<and>
      View monero_ex ''a'' = Inr ''va'' \<and> privkeys_b bob_WaitReady = Some (''b'', ''vb'')"
    by (simp add: world_ok_def monero_ex_def bob_WaitReady_def newSwapState_b_def)
  have g: "GenerateFromKeys (''a+b'', ''va+vb'') ''bob-swap-wallet-2021-Oct-1-12:00:00'' None \<in>
     set (events_of (HandleProtocolMessage_b monero_ex world_ok bob_WaitReady
                       (NotifyRefund ''0xrefund'')))"
    by (simp add: bob_WaitReady_refund_run)
  have v1: "basepath world_ok @ ''/'' @ decimal (unat (id_b bob_WaitReady)) @ ''/swap-secret'' =
      ''/tmp/bob/7/swap-secret''"
    by (simp add: world_ok_def bob_WaitReady_def newSwapState_b_def decimal_7)
  have v2: "WriteKeysToFile_res world_ok = None"
    by (simp add: world_ok_def)
  have v3: "SumPrivateSpendKeys monero_ex ''a'' ''b'' = ''a+b''"
    by (simp add: monero_ex_def)
  have v4: "SumPrivateViewKeys monero_ex ''va'' ''vb'' = ''va+vb''"
    by (simp add: monero_ex_def)
  note t = refund_secret_written_first [of world_ok "replicate 32 1" "[]" "replicate 32 1"
      monero_ex "''a''" "''va''" bob_WaitReady "''b''" "''vb''" "''0xrefund''"
      "(''a+b'', ''va+vb'')" "''bob-swap-wallet-2021-Oct-1-12:00:00''" None]
  from t h have "\<exists>rest. events_of (HandleProtocolMessage_b monero_ex world_ok bob_WaitReady
                       (NotifyRefund ''0xrefund'')) =
       [TransactionReceipt ''0xrefund'' (Inr [replicate 32 1]),
        WriteKeysToFile
          (basepath world_ok @ ''/'' @ decimal (unat (id_b bob_WaitReady)) @ ''/swap-secret'')
          (SumPrivateSpendKeys monero_ex ''a'' ''b'', SumPrivateViewKeys monero_ex ''va'' ''vb'')
          (WriteKeysToFile_res world_ok)] @ rest"
    by blast
  then have "\<exists>rest. events_of (HandleProtocolMessage_b monero_ex world_ok bob_WaitReady
                       (NotifyRefund ''0xrefund'')) =
       [TransactionReceipt ''0xrefund'' (Inr [replicate 32 1]),
        WriteKeysToFile ''/tmp/bob/7/swap-secret'' (''a+b'', ''va+vb'') None] @ rest"
    by (simp only: v1 v2 v3 v4)
  with h g show ?thesis by blast
qed

section \<open>Totality of Bob's handler\<close>

lemma handleRefund_panics:
  "panics (HandleProtocolMessage_b M W s (NotifyRefund h)) =
     (privkeys_b s = None \<and> abi_JSON_res W = None \<and>
      (\<exists>data logs sa skA vkA.
         TransactionReceipt_res W = Inr (data # logs) \<and> Unpack_Refunded W data = Inr sa \<and>
         NewPrivateSpendKey M sa = Inr skA \<and> View M skA = Inr vkA))"
  by (auto simp: HandleProtocolMessage_b_NotifyRefund handleRefund_def createMoneroWallet_def
      Let_def split: option.splits sum.splits list.splits prod.splits)

text \<open>
  C10. Bob's session has just been created: it expects \<open>SendKeys\<close>, and its keys and
  contract are not set. A \<open>NotifyRefund\<close> naming a transaction whose first log decodes to
  a secret passes the gate, and the handler panics when it reads Bob's own spend key
  through the unset \<open>privkeys\<close>.
\<close>

theorem NotifyRefund_before_keys_panics:
  "nextExpectedMessage_b (newSwapState_b 0 1000000000000 10) = SendKeysType \<and>
   privkeys_b (newSwapState_b 0 1000000000000 10) = None \<and>
   contract_b (newSwapState_b 0 1000000000000 10) = None \<and>
   checkMessageType_b (newSwapState_b 0 1000000000000 10) (NotifyRefund ''0xrefund'') = None \<and>
   HandleProtocolMessage_b monero_ex world_ok (newSwapState_b 0 1000000000000 10)
       (NotifyRefund ''0xrefund'') =
     Panic (newSwapState_b 0 1000000000000 10)
       [TransactionReceipt ''0xrefund'' (Inr [replicate 32 1])]"
  by (simp add: HandleProtocolMessage_b_def checkMessageType_b_def handleRefund_def
      newSwapState_b_def world_ok_def monero_ex_def Let_def)


section \<open>The success flag\<close>

lemma createMoneroWallet_success:
  "success_b (fst (createMoneroWallet M W s kp)) =
     (success_b s \<or> (GenerateFromKeys_res W = None \<and> Refresh_res W = None \<and>
                      (\<exists>b. GetBalance_res W = Inr b)))"
  by (auto simp: createMoneroWallet_def Let_def split: option.splits sum.splits)

lemma claimFunds_success:
  "success_b (fst (claimFunds W s)) = (success_b s \<or> (\<exists>tx. claim_res W = Inr tx))"
  by (auto simp: claimFunds_def split: sum.splits)

lemma success_b_kept:
  "success_b s \<Longrightarrow> success_b (state_of (HandleProtocolMessage_b M W s msg))"
  by (cases msg)
     (auto simp: HandleProtocolMessage_b_def checkMessageType_b_def handleSendKeysMessage_b_def
      handleNotifyContractDeployed_def handleNotifyReady_def handleRefund_def
      createMoneroWallet_def claimFunds_def setContract_def setAlicePublicKeys_def Let_def
      split: option.splits sum.splits list.splits prod.splits if_splits)

lemma ProtocolComplete_b_after_success:
  "success_b s \<Longrightarrow> ProtocolComplete_b W s = (s, [cancel, clear_swapState])"
  by (simp add: ProtocolComplete_b_def)

lemma ProtocolComplete_b_claims:
  "nextExpectedMessage_b s = NotifyReadyType \<Longrightarrow> \<not> success_b s \<Longrightarrow> claim_res W = Inr tx \<Longrightarrow>
   ProtocolComplete_b W s =
     (s\<lparr>success_b := True\<rparr>, [claimFunds_call (now W) (Inr tx), cancel, clear_swapState])"
  by (simp add: ProtocolComplete_b_def tryClaim_def claimFunds_def Let_def After_def)

lemma handleNotifyReady_claims:
  "nextExpectedMessage_b s = NotifyReadyType \<Longrightarrow> \<not> readyCh s \<Longrightarrow> claim_res W = Inr tx \<Longrightarrow>
   HandleProtocolMessage_b M W s NotifyReady =
     Return (s\<lparr>readyCh := True, success_b := True\<rparr>)
       [close_chan ''readyCh'', claimFunds_call (now W) (Inr tx)]
       (Some (NotifyClaimed tx), True, None)"
  by (simp add: HandleProtocolMessage_b_def checkMessageType_b_def handleNotifyReady_def
      claimFunds_def Let_def)

text \<open>
  C6, as the code has it. \<open>createMoneroWallet\<close> sets Bob's success flag exactly when the
  spendable wallet has been created and then refreshed and its balance read, all three
  without error; \<open>claimFunds\<close> sets it exactly when the claim has gone through. When the
  claim succeeds, on \<open>NotifyReady\<close> or on a closed stream, the session ends with the flag
  set; once set, the flag is kept by every message handled later, and \<open>ProtocolComplete\<close>
  then does nothing but stop the session.
\<close>

theorem success_latched:
  "success_b (fst (createMoneroWallet M W s kp)) =
     (success_b s \<or> (GenerateFromKeys_res W = None \<and> Refresh_res W = None \<and>
                      (\<exists>b. GetBalance_res W = Inr b))) \<and>
   success_b (fst (claimFunds W s)) = (success_b s \<or> (\<exists>h. claim_res W = Inr h)) \<and>
   (nextExpectedMessage_b s = NotifyReadyType \<and> \<not> readyCh s \<and> claim_res W = Inr tx \<longrightarrow>
      HandleProtocolMessage_b M W s NotifyReady =
        Return (s\<lparr>readyCh := True, success_b := True\<rparr>)
          [close_chan ''readyCh'', claimFunds_call (now W) (Inr tx)]
          (Some (NotifyClaimed tx), True, None)) \<and>
   (nextExpectedMessage_b s = NotifyReadyType \<and> \<not> success_b s \<and> claim_res W = Inr tx \<longrightarrow>
      ProtocolComplete_b W s =
        (s\<lparr>success_b := True\<rparr>, [claimFunds_call (now W) (Inr tx), cancel, clear_swapState])) \<and>
   (success_b s \<longrightarrow>
      success_b (state_of (HandleProtocolMessage_b M W s msg)) \<and>
      ProtocolComplete_b W s = (s, [cancel, clear_swapState]))"
  using createMoneroWallet_success [of M W s kp] claimFunds_success [of W s]
    handleNotifyReady_claims [of s W tx M] ProtocolComplete_b_claims [of s W tx]
    success_b_kept [of s M W msg] ProtocolComplete_b_after_success [of s W]
  by blast

theorem success_latched_witness:
  "nextExpectedMessage_b bob_WaitReady = NotifyReadyType \<and> \<not> readyCh bob_WaitReady \<and>
   \<not> success_b bob_WaitReady \<and> claim_res world_ok = Inr ''0xclaim'' \<and>
   HandleProtocolMessage_b monero_ex world_ok bob_WaitReady NotifyReady =
     Return (bob_WaitReady\<lparr>readyCh := True, success_b := True\<rparr>)
       [close_chan ''readyCh'', claimFunds_call (now world_ok) (Inr ''0xclaim'')]
       (Some (NotifyClaimed ''0xclaim''), True, None) \<and>
   ProtocolComplete_b world_ok bob_WaitReady =
     (bob_WaitReady\<lparr>success_b := True\<rparr>,
      [claimFunds_call (now world_ok) (Inr ''0xclaim''), cancel, clear_swapState]) \<and>
   success_b (bob_WaitReady\<lparr>readyCh := True, success_b := True\<rparr>) \<and>
   ProtocolComplete_b world_ok (bob_WaitReady\<lparr>readyCh := True, success_b := True\<rparr>) =
     (bob_WaitReady\<lparr>readyCh := True, success_b := True\<rparr>, [cancel, clear_swapState])"
proof -
  have h: "nextExpectedMessage_b bob_WaitReady = NotifyReadyType \<and> \<not> readyCh bob_WaitReady \<and>
      \<not> success_b bob_WaitReady \<and> claim_res world_ok = Inr ''0xclaim''"
    by (simp add: bob_WaitReady_def newSwapState_b_def world_ok_def)
  have k: "success_b (bob_WaitReady\<lparr>readyCh := True, success_b := True\<rparr>)"
    by simp
  note t1 = success_latched [of monero_ex world_ok bob_WaitReady "(''a+b'', ''va+vb'')"
      "''0xclaim''" NotifyReady]
  note t2 = success_latched [of monero_ex world_ok
      "bob_WaitReady\<lparr>readyCh := True, success_b := True\<rparr>" "(''a+b'', ''va+vb'')"
      "''0xclaim''" NotifyReady]
  from t1 h t2 k show ?thesis by blast
qed

text \<open>
  The flag does not follow the creation of the wallet alone: the wallet is created, the
  refresh that follows fails, and the handler returns with the flag unset.
\<close>

theorem wallet_created_success_unset:
  "HandleProtocolMessage_b monero_ex (world_ok\<lparr>Refresh_res := Some (New ''no connection'')\<rparr>)
       bob_WaitReady (NotifyRefund ''0xrefund'') =
     Return bob_WaitReady
       [TransactionReceipt ''0xrefund'' (Inr [replicate 32 1]),
        WriteKeysToFile ''/tmp/bob/7/swap-secret'' (''a+b'', ''va+vb'') None,
        GenerateFromKeys (''a+b'', ''va+vb'') ''bob-swap-wallet-2021-Oct-1-12:00:00'' None,
        Refresh (Some (New ''no connection''))]
       (None, True, Some (New ''no connection'')) \<and>
   \<not> success_b bob_WaitReady"
  by (simp add: HandleProtocolMessage_b_def checkMessageType_b_def handleRefund_def
      createMoneroWallet_def bob_WaitReady_def newSwapState_b_def world_ok_def monero_ex_def
      Let_def decimal_7)


end
